theory Spec2Isabelle
  imports Complex_Main "HOL-Library.List_Lexorder" "HOL-Library.Char_ord" "HOL-Library.Sublist"
begin

section \<open>The JavaScript runtime the program is written against\<close>

text \<open>
  The program is TypeScript running on Node. Strings of URLs, identifiers, messages and
  dates are modelled as \<open>string\<close> (a list of bytes, read as UTF-8; every pattern the
  modelled code matches on them is ASCII or a whole encoded character). A \<open>Date\<close> is
  its time value, an integer number of milliseconds since the epoch, or \<open>None\<close> for an
  invalid date (time value NaN). An optional field is an \<open>option\<close>.

  What the runtime supplies and the repository does not define is a parameter of the
  model, gathered in the record \<open>js_runtime\<close>: the date parser behind
  \<open>new Date(s)\<close>, \<open>toISOString\<close>, the local time zone, regular expressions built from
  configuration strings, and the calendar arithmetic of the \<open>Date\<close> setters. Every
  theorem holds for every such runtime.
\<close>

type_synonym Date = "int option"

text \<open>Titles are compared character by character, full-width and Japanese characters
  included, so a title is modelled as the list of its UTF-16 code units.\<close>

type_synonym ustring = "nat list"

datatype error = RangeError | SyntaxError | InvalidURL

datatype TimeUnit =
  seconds | minutes | hours | days | weeks | months | yesterday | today | last_week

record js_runtime =
  Date_parse :: "string \<Rightarrow> int option"
    \<comment> \<open>\<open>new Date(s).getTime()\<close>, \<open>None\<close> when it is NaN\<close>
  toISOString :: "int \<Rightarrow> string"
    \<comment> \<open>\<open>toISOString()\<close> of a valid date\<close>
  localOffset :: "int \<Rightarrow> int"
    \<comment> \<open>milliseconds the local zone is ahead of UTC at a time value\<close>
  RegExp_match :: "string \<Rightarrow> string \<Rightarrow> error + (string option list) option"
    \<comment> \<open>\<open>text.match(new RegExp(pattern))\<close>: \<open>Inl SyntaxError\<close> for a pattern that does
        not compile, else the groups of the leftmost match (group 0 first)\<close>
  Date_minus :: "TimeUnit \<Rightarrow> nat \<Rightarrow> int \<Rightarrow> int option"
    \<comment> \<open>the time value after \<open>setX(getX() - n)\<close> in the local zone, \<open>None\<close> when
        the result is an invalid date\<close>
  toLowerCaseU :: "nat list \<Rightarrow> nat list"
    \<comment> \<open>\<open>toLowerCase()\<close> of a string given by its UTF-16 code units\<close>

text \<open>A JavaScript string is truthy when it is present and not empty; \<open>present x\<close> is
  the string of a truthy \<open>x\<close>, so that \<open>if (x) f(x) else g\<close> reads
  \<open>case present x of Some s \<Rightarrow> f s | None \<Rightarrow> g\<close>.\<close>

fun present :: "string option \<Rightarrow> string option" where
  "present None = None"
| "present (Some s) = (if s = [] then None else Some s)"

definition truthy :: "string option \<Rightarrow> bool" where
  "truthy x = (present x \<noteq> None)"

text \<open>\<open>a > b\<close> and \<open>a >= b\<close> on time values: false as soon as one side is NaN.\<close>

fun date_gt :: "Date \<Rightarrow> Date \<Rightarrow> bool" where
  "date_gt (Some a) (Some b) = (a > b)"
| "date_gt _ _ = False"

fun date_ge :: "Date \<Rightarrow> Date \<Rightarrow> bool" where
  "date_ge (Some a) (Some b) = (a \<ge> b)"
| "date_ge _ _ = False"

text \<open>\<open>getDay()\<close>: the day of the week of the local time, 0 for Sunday; the epoch was a
  Thursday.\<close>

definition getDay :: "js_runtime \<Rightarrow> int \<Rightarrow> int" where
  "getDay R t = ((t + localOffset R t) div 86400000 + 4) mod 7"

section \<open>String operations of the runtime\<close>

text \<open>\<open>toLowerCase()\<close> on the ASCII letters; every other byte is kept. (The phrases the
  modelled code looks for in a lowered string are ASCII, and no character outside ASCII
  lowers to a run of ASCII letters that could complete one of them.)\<close>

definition lower_char :: "char \<Rightarrow> char" where
  "lower_char c =
     (if CHR ''A'' \<le> c \<and> c \<le> CHR ''Z'' then char_of (of_char c + (32::nat)) else c)"

definition toLowerCase :: "string \<Rightarrow> string" where
  "toLowerCase s = map lower_char s"

text \<open>\<open>s.startsWith(p)\<close> is \<open>prefix p s\<close>; \<open>s.includes(p)\<close> looks for \<open>p\<close> at every
  position.\<close>

fun str_includes :: "string \<Rightarrow> string \<Rightarrow> bool" where
  "str_includes [] p = (p = [])"
| "str_includes (c # cs) p = (prefix p (c # cs) \<or> str_includes cs p)"

text \<open>A JavaScript \<open>Set\<close> keeps its elements in insertion order, each once: a list
  without duplicates. \<open>set_add\<close> is \<open>Set.prototype.add\<close>.\<close>

definition set_add :: "'a \<Rightarrow> 'a list \<Rightarrow> 'a list" where
  "set_add x xs = (if x \<in> set xs then xs else xs @ [x])"

text \<open>\<open>s.indexOf(p)\<close>: the position of the first occurrence, \<open>None\<close> for \<open>-1\<close>.\<close>

fun indexOf :: "string \<Rightarrow> string \<Rightarrow> nat option" where
  "indexOf [] p = (if p = [] then Some 0 else None)"
| "indexOf (c # cs) p =
     (if prefix p (c # cs) then Some 0 else map_option Suc (indexOf cs p))"

text \<open>\<open>s.lastIndexOf(p)\<close> for a pattern of one character.\<close>

fun lastIndexOf_char :: "string \<Rightarrow> char \<Rightarrow> nat option" where
  "lastIndexOf_char [] p = None"
| "lastIndexOf_char (c # cs) p =
     (case lastIndexOf_char cs p of
        Some i \<Rightarrow> Some (Suc i)
      | None \<Rightarrow> if c = p then Some 0 else None)"

text \<open>\<open>xs.join(sep)\<close>.\<close>

fun join :: "string \<Rightarrow> string list \<Rightarrow> string" where
  "join sep [] = []"
| "join sep [x] = x"
| "join sep (x # y # ys) = x @ sep @ join sep (y # ys)"

text \<open>The white space of ECMAScript (what \<open>\s\<close> matches and \<open>trim()\<close> strips), each
  character by its UTF-8 bytes: tab, line feed, vertical tab, form feed, carriage return,
  space, \<open>U+00A0\<close>, \<open>U+1680\<close>, \<open>U+2000..U+200A\<close>, \<open>U+2028\<close>, \<open>U+2029\<close>, \<open>U+202F\<close>,
  \<open>U+205F\<close>, \<open>U+3000\<close>, \<open>U+FEFF\<close>.\<close>

definition white_space :: "string list" where
  "white_space =
     [[CHR 0x09], [CHR 0x0A], [CHR 0x0B], [CHR 0x0C], [CHR 0x0D], [CHR 0x20],
      [CHR 0xC2, CHR 0xA0], [CHR 0xE1, CHR 0x9A, CHR 0x80],
      [CHR 0xE2, CHR 0x80, CHR 0x80], [CHR 0xE2, CHR 0x80, CHR 0x81],
      [CHR 0xE2, CHR 0x80, CHR 0x82], [CHR 0xE2, CHR 0x80, CHR 0x83],
      [CHR 0xE2, CHR 0x80, CHR 0x84], [CHR 0xE2, CHR 0x80, CHR 0x85],
      [CHR 0xE2, CHR 0x80, CHR 0x86], [CHR 0xE2, CHR 0x80, CHR 0x87],
      [CHR 0xE2, CHR 0x80, CHR 0x88], [CHR 0xE2, CHR 0x80, CHR 0x89],
      [CHR 0xE2, CHR 0x80, CHR 0x8A], [CHR 0xE2, CHR 0x80, CHR 0xA8],
      [CHR 0xE2, CHR 0x80, CHR 0xA9], [CHR 0xE2, CHR 0x80, CHR 0xAF],
      [CHR 0xE2, CHR 0x81, CHR 0x9F], [CHR 0xE3, CHR 0x80, CHR 0x80],
      [CHR 0xEF, CHR 0xBB, CHR 0xBF]]"

text \<open>The number of bytes of the white-space character a string starts with, 0 when it
  starts with none.\<close>

definition space_width :: "string list \<Rightarrow> string \<Rightarrow> nat" where
  "space_width spaces s =
     (case find (\<lambda>w. w \<noteq> [] \<and> prefix w s) spaces of Some w \<Rightarrow> length w | None \<Rightarrow> 0)"

text \<open>Skipping a run of white space at the start: \<open>\s*\<close> at a position, and
  \<open>trimStart()\<close>. The list of white-space characters is a parameter so that the same
  function, on the reversed string with the reversed characters, skips at the end.\<close>

function skip_spaces :: "string list \<Rightarrow> string \<Rightarrow> string" where
  "skip_spaces spaces s =
     (if space_width spaces s = 0 then s
      else skip_spaces spaces (drop (space_width spaces s) s))"
  by pat_completeness auto
termination
proof (relation "measure (\<lambda>(spaces, s). length s)")
  show "wf (measure (\<lambda>(spaces, s). length s))" by simp
next
  fix spaces :: "string list" and s :: string
  assume "space_width spaces s \<noteq> 0"
  then obtain w where "w \<noteq> []" "prefix w s"
    by (auto simp: space_width_def find_Some_iff split: option.splits)
  then have "s \<noteq> []" by auto
  with \<open>space_width spaces s \<noteq> 0\<close>
  show "((spaces, drop (space_width spaces s) s), (spaces, s)) \<in> measure (\<lambda>(spaces, s). length s)"
    by simp
qed

declare skip_spaces.simps [simp del]

definition trimStart :: "string \<Rightarrow> string" where
  "trimStart s = skip_spaces white_space s"

definition trimEnd :: "string \<Rightarrow> string" where
  "trimEnd s = rev (skip_spaces (map rev white_space) (rev s))"

definition trim_str :: "string \<Rightarrow> string" where
  "trim_str s = trimEnd (trimStart s)"

section \<open>Fetch executor: retries by tier\<close>

datatype SourceTier = Tier1 | Tier2 | Tier3

fun getRetriesByTier :: "SourceTier \<Rightarrow> int \<Rightarrow> int" where
  "getRetriesByTier Tier1 configuredRetries = max configuredRetries 3"
| "getRetriesByTier Tier2 configuredRetries = max configuredRetries 1"
| "getRetriesByTier Tier3 configuredRetries = 0"

text \<open>The tier floor as the specification words it: 3, 1 and 0 for tiers 1, 2 and 3.\<close>

fun spec_tierFloor :: "SourceTier \<Rightarrow> int" where
  "spec_tierFloor Tier1 = 3"
| "spec_tierFloor Tier2 = 1"
| "spec_tierFloor Tier3 = 0"

section \<open>Date parser: the freshness window\<close>

definition calculateWindowStart :: "js_runtime \<Rightarrow> string option \<Rightarrow> int \<Rightarrow> Date" where
  "calculateWindowStart R lastSuccessAt now =
     (let isMonday = (getDay R now = 1) in
      case present lastSuccessAt of
        Some s \<Rightarrow>
          (let lastSuccess = Date_parse R s in
           if isMonday then
             (let threeDaysAgo = Some (now - 72 * 60 * 60 * 1000) in
              if date_gt lastSuccess threeDaysAgo then lastSuccess else threeDaysAgo)
           else lastSuccess)
      | None \<Rightarrow>
          if isMonday then Some (now - 72 * 60 * 60 * 1000)
          else Some (now - 24 * 60 * 60 * 1000))"

text \<open>A runtime for the examples: it parses one timestamp,
  \<open>2024-01-12T09:59:59.999Z\<close>, runs in UTC and lowers the ASCII letters.\<close>

definition utc_runtime :: js_runtime where
  "utc_runtime =
     \<lparr> Date_parse = (\<lambda>s. if s = ''2024-01-12T09:59:59.999Z'' then Some 1705053599999 else None),
       toISOString = (\<lambda>t. if t = 1705053599999 then ''2024-01-12T09:59:59.999Z'' else []),
       localOffset = (\<lambda>t. 0),
       RegExp_match = (\<lambda>p s. Inl SyntaxError),
       Date_minus = (\<lambda>u n t. None),
       toLowerCaseU = map (\<lambda>c. if 65 \<le> c \<and> c \<le> 90 then c + 32 else c) \<rparr>"

section \<open>History store\<close>

text \<open>
  The store is one SQLite table. It is modelled as the list of its rows in rowid order,
  with the AUTOINCREMENT counter beside it; the methods take the store and return the new
  one with their result. A nullable column is an \<open>option\<close>, \<open>None\<close> for NULL.
\<close>

datatype DateConfidence = high | medium | low | unknown

record HistoryRow =
  row_id :: nat
  row_url :: string
  normalized_url :: string
  row_title :: string
  first_seen_at :: string
  last_seen_at :: string
  published_at :: "string option"
  date_confidence :: DateConfidence
  row_source :: string
  title_hash :: "string option"
  content_hash :: "string option"

record HistoryEntry =
  e_id :: "nat option"
  e_url :: string
  e_normalizedUrl :: string
  e_title :: string
  e_firstSeenAt :: string
  e_lastSeenAt :: string
  e_publishedAt :: "string option"
  e_dateConfidence :: DateConfidence
  e_source :: string
  e_titleHash :: "string option"
  e_contentHash :: "string option"

record HistoryStore =
  rows :: "HistoryRow list"
  lastInsertRowid :: nat

text \<open>SQL \<open>COALESCE(?, column)\<close>: the bound parameter unless it is NULL (a JavaScript
  \<open>undefined\<close> or \<open>null\<close> is bound as NULL), else the column's value.\<close>

fun COALESCE :: "'a option \<Rightarrow> 'a option \<Rightarrow> 'a option" where
  "COALESCE (Some v) column = Some v"
| "COALESCE None column = column"

definition rowToEntry :: "HistoryRow \<Rightarrow> HistoryEntry" where
  "rowToEntry row =
     \<lparr> e_id = Some (row_id row),
       e_url = row_url row,
       e_normalizedUrl = normalized_url row,
       e_title = row_title row,
       e_firstSeenAt = first_seen_at row,
       e_lastSeenAt = last_seen_at row,
       e_publishedAt = published_at row,
       e_dateConfidence = date_confidence row,
       e_source = row_source row,
       e_titleHash = title_hash row,
       e_contentHash = content_hash row \<rparr>"

text \<open>\<open>SELECT * FROM history WHERE normalized_url = ?\<close>, first row.\<close>

definition selectByNormalizedUrl :: "HistoryStore \<Rightarrow> string \<Rightarrow> HistoryRow option" where
  "selectByNormalizedUrl db normalizedUrl =
     find (\<lambda>row. normalized_url row = normalizedUrl) (rows db)"

definition findByNormalizedUrl :: "HistoryStore \<Rightarrow> string \<Rightarrow> HistoryEntry option" where
  "findByNormalizedUrl db normalizedUrl =
     map_option rowToEntry (selectByNormalizedUrl db normalizedUrl)"

text \<open>The \<open>UPDATE history SET ... WHERE normalized_url = ?\<close> of \<open>upsert\<close>, on one row.
  The parameter bound for \<open>date_confidence\<close> is a field every entry has, so it is never
  NULL.\<close>

definition updateRow :: "HistoryEntry \<Rightarrow> HistoryRow \<Rightarrow> HistoryRow" where
  "updateRow entry row =
     (if normalized_url row = e_normalizedUrl entry then
        row\<lparr> last_seen_at := e_lastSeenAt entry,
             published_at := COALESCE (e_publishedAt entry) (published_at row),
             date_confidence :=
               (case COALESCE (Some (e_dateConfidence entry)) (Some (date_confidence row)) of
                  Some c \<Rightarrow> c | None \<Rightarrow> date_confidence row),
             title_hash := COALESCE (e_titleHash entry) (title_hash row),
             content_hash := COALESCE (e_contentHash entry) (content_hash row) \<rparr>
      else row)"

definition insertRow :: "HistoryEntry \<Rightarrow> nat \<Rightarrow> HistoryRow" where
  "insertRow entry rowid =
     \<lparr> row_id = rowid,
       row_url = e_url entry,
       normalized_url = e_normalizedUrl entry,
       row_title = e_title entry,
       first_seen_at = e_firstSeenAt entry,
       last_seen_at = e_lastSeenAt entry,
       published_at = e_publishedAt entry,
       date_confidence = e_dateConfidence entry,
       row_source = e_source entry,
       title_hash = e_titleHash entry,
       content_hash = e_contentHash entry \<rparr>"

definition upsert :: "HistoryStore \<Rightarrow> HistoryEntry \<Rightarrow> HistoryEntry \<times> HistoryStore" where
  "upsert db entry =
     (case findByNormalizedUrl db (e_normalizedUrl entry) of
        Some existing \<Rightarrow>
          (existing\<lparr> e_lastSeenAt := e_lastSeenAt entry \<rparr>,
           db\<lparr> rows := map (updateRow entry) (rows db) \<rparr>)
      | None \<Rightarrow>
          (let rowid = lastInsertRowid db + 1 in
           (entry\<lparr> e_id := Some rowid \<rparr>,
            db\<lparr> rows := rows db @ [insertRow entry rowid], lastInsertRowid := rowid \<rparr>)))"

fun bulkUpsert :: "HistoryStore \<Rightarrow> HistoryEntry list \<Rightarrow> HistoryEntry list \<times> HistoryStore" where
  "bulkUpsert db [] = ([], db)"
| "bulkUpsert db (entry # entries) =
     (let (r, db') = upsert db entry;
          (rs, db'') = bulkUpsert db' entries
      in (r # rs, db''))"

text \<open>A store for the examples: one article, seen on 2024-01-15, with a publication
  date and a title hash already recorded; and a later sighting of the same article that
  carries another publication date and no hashes.\<close>

definition example_row :: HistoryRow where
  "example_row =
     \<lparr> row_id = 1,
       row_url = ''https://example.com/article'',
       normalized_url = ''https://example.com/article'',
       row_title = ''Test Article'',
       first_seen_at = ''2024-01-15T10:00:00.000Z'',
       last_seen_at = ''2024-01-15T10:00:00.000Z'',
       published_at = Some ''2024-01-10T08:00:00.000Z'',
       date_confidence = high,
       row_source = ''test_source'',
       title_hash = Some ''abc123'',
       content_hash = None \<rparr>"

definition example_store :: HistoryStore where
  "example_store = \<lparr> rows = [example_row], lastInsertRowid = 1 \<rparr>"

definition example_sighting :: HistoryEntry where
  "example_sighting =
     \<lparr> e_id = None,
       e_url = ''https://example.com/article?utm_source=x'',
       e_normalizedUrl = ''https://example.com/article'',
       e_title = ''Test Article'',
       e_firstSeenAt = ''2024-01-20T10:00:00.000Z'',
       e_lastSeenAt = ''2024-01-20T10:00:00.000Z'',
       e_publishedAt = Some ''2024-01-12T00:00:00.000Z'',
       e_dateConfidence = medium,
       e_source = ''test_source'',
       e_titleHash = None,
       e_contentHash = None \<rparr>"

section \<open>Pipeline orchestrator: abort-heavy sources\<close>

datatype ErrorType = err_timeout | err_network | err_parse | err_rate_limit | err_unknown

record CollectionError =
  sourceId :: string
  errorType :: ErrorType
  message :: string
  timestamp :: string
  retryCount :: int

definition isAbortMessage :: "string \<Rightarrow> bool" where
  "isAbortMessage normalizedMessage =
     (str_includes normalizedMessage ''aborted by user'' \<or>
      str_includes normalizedMessage ''process aborted'' \<or>
      str_includes normalizedMessage ''operation aborted'')"

text \<open>One turn of the loop over the errors, on the set of source ids built so far.\<close>

definition abortHeavyStep :: "CollectionError \<Rightarrow> string list \<Rightarrow> string list" where
  "abortHeavyStep error sourceIds =
     (if retryCount error < 1 then sourceIds
      else if isAbortMessage (toLowerCase (message error))
        then set_add (sourceId error) sourceIds
      else sourceIds)"

definition findAbortHeavySourceIds :: "CollectionError list \<Rightarrow> string list" where
  "findAbortHeavySourceIds errors = fold abortHeavyStep errors []"

text \<open>The errors for which a turn of the loop adds the source id.\<close>

definition abortHeavy :: "CollectionError \<Rightarrow> bool" where
  "abortHeavy e = (retryCount e \<ge> 1 \<and> isAbortMessage (toLowerCase (message e)))"

text \<open>The errors of the repository's unit test of \<open>findAbortHeavySourceIds\<close>.\<close>

definition test_errors :: "CollectionError list" where
  "test_errors =
     [\<lparr> sourceId = ''hackernews'', errorType = err_timeout,
        message = ''Claude Code process aborted by user'', timestamp = ''t'', retryCount = 3 \<rparr>,
      \<lparr> sourceId = ''hackernews'', errorType = err_timeout,
        message = ''Operation aborted'', timestamp = ''t'', retryCount = 3 \<rparr>,
      \<lparr> sourceId = ''openai_news'', errorType = err_timeout,
        message = ''request timeout'', timestamp = ''t'', retryCount = 3 \<rparr>,
      \<lparr> sourceId = ''twitter'', errorType = err_timeout,
        message = ''Claude Code process aborted by user'', timestamp = ''t'', retryCount = 0 \<rparr>]"

section \<open>Similarity engine\<close>

text \<open>The characters \<open>\s\<close> matches and \<open>trim()\<close> strips: the white space and line
  terminators of ECMAScript, as code units.\<close>

definition is_space :: "nat \<Rightarrow> bool" where
  "is_space c =
     ((9 \<le> c \<and> c \<le> 13) \<or> c = 32 \<or> c = 160 \<or> c = 5760 \<or> (8192 \<le> c \<and> c \<le> 8202) \<or>
      c = 8232 \<or> c = 8233 \<or> c = 8239 \<or> c = 8287 \<or> c = 12288 \<or> c = 65279)"

text \<open>\<open>[a-zA-Z0-9]\<close>.\<close>

definition is_alnum :: "nat \<Rightarrow> bool" where
  "is_alnum c = ((48 \<le> c \<and> c \<le> 57) \<or> (65 \<le> c \<and> c \<le> 90) \<or> (97 \<le> c \<and> c \<le> 122))"

text \<open>The full-width letters and digits \<open>U+FF21..U+FF3A\<close>, \<open>U+FF41..U+FF5A\<close>,
  \<open>U+FF10..U+FF19\<close> move down by \<open>0xFEE0\<close>; the ideographic space \<open>U+3000\<close> becomes a
  space.\<close>

definition to_half_width :: "nat \<Rightarrow> nat" where
  "to_half_width c =
     (if (65313 \<le> c \<and> c \<le> 65338) \<or> (65345 \<le> c \<and> c \<le> 65370) \<or> (65296 \<le> c \<and> c \<le> 65305)
      then c - 65248 else c)"

definition ideographic_space_to_space :: "nat \<Rightarrow> nat" where
  "ideographic_space_to_space c = (if c = 12288 then 32 else c)"

text \<open>\<open>replace(/\s+/g, ' ')\<close>: a run of white space becomes one space. The flag says
  that the character before was white space.\<close>

fun collapse_spaces :: "bool \<Rightarrow> ustring \<Rightarrow> ustring" where
  "collapse_spaces in_run [] = []"
| "collapse_spaces in_run (c # cs) =
     (if is_space c then
        (if in_run then collapse_spaces True cs else 32 # collapse_spaces True cs)
      else c # collapse_spaces False cs)"

definition trim :: "ustring \<Rightarrow> ustring" where
  "trim s = rev (dropWhile is_space (rev (dropWhile is_space s)))"

definition normalizeText :: "js_runtime \<Rightarrow> ustring \<Rightarrow> ustring" where
  "normalizeText R text =
     trim (collapse_spaces False
       (map ideographic_space_to_space (map to_half_width (toLowerCaseU R text))))"

text \<open>\<open>match(/[a-zA-Z0-9]+/g)\<close>: the maximal runs of ASCII letters and digits, left to
  right; the second argument is the run being read.\<close>

fun alnum_runs :: "ustring \<Rightarrow> ustring \<Rightarrow> ustring list" where
  "alnum_runs [] run = (if run = [] then [] else [run])"
| "alnum_runs (c # cs) run =
     (if is_alnum c then alnum_runs cs (run @ [c])
      else (if run = [] then [] else [run]) @ alnum_runs cs [])"

text \<open>\<open>substring(i, i + 2)\<close> for \<open>i\<close> from 0 to \<open>length - 2\<close>.\<close>

fun bigrams :: "ustring \<Rightarrow> ustring list" where
  "bigrams (a # b # cs) = [a, b] # bigrams (b # cs)"
| "bigrams cs = []"

text \<open>The \<open>Set\<close> built by adding the elements of a sequence in order.\<close>

definition Set_of :: "'a list \<Rightarrow> 'a list" where
  "Set_of xs = fold set_add xs []"

definition tokenize :: "js_runtime \<Rightarrow> ustring \<Rightarrow> ustring list" where
  "tokenize R text =
     (let normalized = normalizeText R text;
          words = alnum_runs normalized [];
          japanese = filter (\<lambda>c. \<not> (is_alnum c \<or> is_space c)) normalized
      in Set_of (map (toLowerCaseU R) words @ bigrams japanese @
                 (if length japanese = 1 then [japanese] else [])))"

definition calculateJaccardSimilarity :: "js_runtime \<Rightarrow> ustring \<Rightarrow> ustring \<Rightarrow> real" where
  "calculateJaccardSimilarity R text1 text2 =
     (let tokens1 = tokenize R text1;
          tokens2 = tokenize R text2
      in if length tokens1 = 0 \<and> length tokens2 = 0 then 1
         else if length tokens1 = 0 \<or> length tokens2 = 0 then 0
         else
           (let intersection = Set_of (filter (\<lambda>x. x \<in> set tokens2) tokens1);
                union = Set_of (tokens1 @ tokens2)
            in real (length intersection) / real (length union)))"

text \<open>The code units of an ASCII literal, for the examples.\<close>

definition ustr :: "string \<Rightarrow> ustring" where
  "ustr s = map of_char s"

section \<open>Collector: parsing what a fetch returned\<close>

record RawArticle =
  url :: string
  title :: string
  summary :: "string option"
  source :: string
  collectedAt :: "string option"
  publishedAt :: "string option"
  dateMetaContent :: "string option"

text \<open>
  A value parsed from JSON. An object is the list of its own properties. Numbers are of a
  type the model leaves open; the runtime says how a number prints and whether it is
  truthy, and \<open>JSON.parse\<close> is the runtime's (\<open>Inl\<close> carries the message of the
  \<open>SyntaxError\<close>).
\<close>

datatype 'n json =
  JNull | JBool bool | JNum 'n | JStr string | JArr "'n json list" | JObj "(string \<times> 'n json) list"

record 'n json_runtime =
  JSON_parse :: "string \<Rightarrow> string + 'n json"
  Number_toString :: "'n \<Rightarrow> string"
  Number_truthy :: "'n \<Rightarrow> bool"

record ParseResult =
  articles :: "RawArticle list"
  parseError :: "string option"
  rawPreview :: "string option"

text \<open>\<open>article[key]\<close>: \<open>None\<close> for \<open>undefined\<close>. An array has none of the keys the code
  reads.\<close>

fun get_prop :: "'n json \<Rightarrow> string \<Rightarrow> 'n json option" where
  "get_prop (JObj kvs) key = map_of kvs key"
| "get_prop v key = None"

text \<open>\<open>v ?? ''\<close>.\<close>

fun or_empty :: "'n json option \<Rightarrow> 'n json" where
  "or_empty None = JStr []"
| "or_empty (Some JNull) = JStr []"
| "or_empty (Some v) = v"

fun js_truthy :: "'n json_runtime \<Rightarrow> 'n json option \<Rightarrow> bool" where
  "js_truthy J None = False"
| "js_truthy J (Some JNull) = False"
| "js_truthy J (Some (JBool b)) = b"
| "js_truthy J (Some (JNum n)) = Number_truthy J n"
| "js_truthy J (Some (JStr s)) = (s \<noteq> [])"
| "js_truthy J (Some (JArr xs)) = True"
| "js_truthy J (Some (JObj kvs)) = True"

text \<open>
  \<open>String(v)\<close>. An array prints as its elements joined by commas, \<open>null\<close> elements as
  nothing. An object prints as \<open>[object Object]\<close> unless it has an own property
  \<open>toString\<close>: that property, never a function in parsed JSON, hides the method, and the
  conversion throws a \<open>TypeError\<close>, here \<open>None\<close>.
\<close>

fun all_some :: "'a option list \<Rightarrow> 'a list option" where
  "all_some [] = Some []"
| "all_some (None # xs) = None"
| "all_some (Some x # xs) = map_option ((#) x) (all_some xs)"

fun js_String :: "'n json_runtime \<Rightarrow> 'n json \<Rightarrow> string option" where
  "js_String J JNull = Some ''null''"
| "js_String J (JBool b) = Some (if b then ''true'' else ''false'')"
| "js_String J (JNum n) = Some (Number_toString J n)"
| "js_String J (JStr s) = Some s"
| "js_String J (JArr xs) =
     map_option (join '','')
       (all_some (map (\<lambda>x. if x = JNull then Some [] else js_String J x) xs))"
| "js_String J (JObj kvs) =
     (if map_of kvs ''toString'' = None then Some ''[object Object]'' else None)"

definition TypeError_message :: string where
  "TypeError_message = ''Cannot convert object to primitive value''"

text \<open>\<open>article[key] ? String(article[key]) : undefined\<close>; the outer \<open>option\<close> is the
  \<open>TypeError\<close>.\<close>

definition optional_field :: "'n json_runtime \<Rightarrow> 'n json \<Rightarrow> string \<Rightarrow> string option option" where
  "optional_field J article key =
     (if js_truthy J (get_prop article key)
      then map_option Some (js_String J (or_empty (get_prop article key)))
      else Some None)"

text \<open>The object the \<open>map\<close> of \<open>normalizeArticles\<close> builds from one entry; \<open>now\<close> is
  \<open>new Date().toISOString()\<close>.\<close>

definition toRawArticle :: "'n json_runtime \<Rightarrow> string \<Rightarrow> string \<Rightarrow> 'n json \<Rightarrow> RawArticle option" where
  "toRawArticle J now sid article =
     (case js_String J (or_empty (get_prop article ''title'')) of
        None \<Rightarrow> None
      | Some t \<Rightarrow>
     (case js_String J (or_empty (get_prop article ''url'')) of
        None \<Rightarrow> None
      | Some u \<Rightarrow>
     (case optional_field J article ''summary'' of
        None \<Rightarrow> None
      | Some s \<Rightarrow>
     (case optional_field J article ''publishedAt'' of
        None \<Rightarrow> None
      | Some p \<Rightarrow>
     (case optional_field J article ''dateMetaContent'' of
        None \<Rightarrow> None
      | Some d \<Rightarrow>
          Some \<lparr> url = u, title = t, summary = s, source = sid,
                 collectedAt = Some now, publishedAt = p, dateMetaContent = d \<rparr>)))))"

text \<open>\<open>typeof a === 'object' && a !== null\<close>.\<close>

fun is_object :: "'n json \<Rightarrow> bool" where
  "is_object (JArr xs) = True"
| "is_object (JObj kvs) = True"
| "is_object v = False"

text \<open>\<open>filter\<close>, \<open>map\<close>, \<open>filter\<close>; \<open>None\<close> when the \<open>map\<close> throws.\<close>

definition normalizeArticles ::
    "'n json_runtime \<Rightarrow> string \<Rightarrow> 'n json list \<Rightarrow> string \<Rightarrow> RawArticle list option" where
  "normalizeArticles J now articlesInput sid =
     map_option (filter (\<lambda>a. title a \<noteq> [] \<and> url a \<noteq> []))
       (all_some (map (toRawArticle J now sid) (filter is_object articlesInput)))"

fun getArticlesArray :: "'n json \<Rightarrow> 'n json list option" where
  "getArticlesArray (JArr xs) = Some xs"
| "getArticlesArray (JObj kvs) =
     (case map_of kvs ''articles'' of Some (JArr xs) \<Rightarrow> Some xs | _ \<Rightarrow> None)"
| "getArticlesArray v = None"

text \<open>\<open>pushCandidate\<close>.\<close>

definition pushCandidate :: "string \<Rightarrow> string list \<Rightarrow> string list" where
  "pushCandidate v candidates =
     (let trimmed = trim_str v in
      if trimmed = [] \<or> trimmed \<in> set candidates then candidates
      else candidates @ [trimmed])"

text \<open>
  The matches of \<open>/```json\s*([\s\S]*?)\s*```/gi\<close>, left to right. A match starts at
  the first \<open>```json\<close> (in any case of the letters) and ends with the first \<open>```\<close>
  after it; the next match is looked for behind it. What is returned for a match is the
  text between the two, which is the group the expression captures with the white space
  around it; \<open>pushCandidate\<close> trims both to the same string. \<open>n\<close> is the length of the
  opening, and \<open>words\<close> says that the opening is followed by an optional run of
  \<open>\w\<close> characters, as in \<open>/```(?:\w+)?\s*([\s\S]*?)\s*```/g\<close>.
\<close>

definition is_word_char :: "char \<Rightarrow> bool" where
  "is_word_char c =
     ((CHR ''a'' \<le> c \<and> c \<le> CHR ''z'') \<or> (CHR ''A'' \<le> c \<and> c \<le> CHR ''Z'') \<or>
      (CHR ''0'' \<le> c \<and> c \<le> CHR ''9'') \<or> c = CHR ''_'')"

function fenced_blocks :: "string \<Rightarrow> bool \<Rightarrow> bool \<Rightarrow> string \<Rightarrow> string list" where
  "fenced_blocks fence_open ignore_case words s =
     (case indexOf (if ignore_case then toLowerCase s else s) fence_open of
        None \<Rightarrow> []
      | Some i \<Rightarrow>
          (let after = drop (i + length fence_open) s;
               body = (if words then dropWhile is_word_char after else after)
           in case indexOf body ''```'' of
                None \<Rightarrow> []
              | Some j \<Rightarrow>
                  take j body # fenced_blocks fence_open ignore_case words (drop (j + 3) body)))"
  by pat_completeness auto
termination
proof (relation "measure (\<lambda>(fence_open, ignore_case, words, s). length s)")
  show "wf (measure (\<lambda>(fence_open, ignore_case, words, s). length s))" by simp
next
  fix fence_open :: string and ignore_case words :: bool and s :: string
    and i :: nat and after body :: string and j :: nat
  assume b: "body = (if words then dropWhile is_word_char after else after)"
    and a: "after = drop (i + length fence_open) s"
    and j: "indexOf body ''```'' = Some j"
  have ix: "\<And>t p k. indexOf t p = Some k \<Longrightarrow> k + length p \<le> length t"
  proof -
    fix t p :: string and k :: nat
    show "indexOf t p = Some k \<Longrightarrow> k + length p \<le> length t"
    proof (induction t arbitrary: k)
      case Nil
      then show ?case by (simp split: if_splits)
    next
      case (Cons c cs)
      then show ?case
        by (auto dest: prefix_length_le split: if_splits)
    qed
  qed
  from ix [OF j] have "j + 3 \<le> length body" by simp
  moreover have "length body \<le> length after"
    using b by (simp add: length_dropWhile_le)
  moreover have "length after \<le> length s"
    using a by simp
  ultimately have "length (drop (j + 3) body) < length s" by simp
  then show "((fence_open, ignore_case, words, drop (j + 3) body), (fence_open, ignore_case, words, s))
                \<in> measure (\<lambda>(fence_open, ignore_case, words, s). length s)"
    by simp
qed

declare fenced_blocks.simps [simp del]

definition looks_like_json :: "string \<Rightarrow> bool" where
  "looks_like_json s = (prefix ''{'' s \<or> prefix ''['' s)"

definition extractJsonCandidates :: "string \<Rightarrow> string list" where
  "extractJsonCandidates result =
     (let c1 = fold pushCandidate (fenced_blocks ''```json'' True False result) [];
          c2 = fold (\<lambda>m cs. if looks_like_json (trim_str m) then pushCandidate (trim_str m) cs else cs)
                 (fenced_blocks ''```'' False True result) c1;
          trimmed = trim_str result;
          c3 = (if looks_like_json trimmed then pushCandidate trimmed c2 else c2)
      in case (indexOf result ''{'', lastIndexOf_char result CHR ''}'') of
           (Some firstBrace, Some lastBrace) \<Rightarrow>
             if lastBrace > firstBrace
             then pushCandidate (take (lastBrace + 1 - firstBrace) (drop firstBrace result)) c3
             else c3
         | _ \<Rightarrow> c3)"

text \<open>
  \<open>buildRawPreview\<close>: runs of white space become one space, the result is trimmed and
  cut to its first 120 UTF-16 code units. A byte that starts a character of four bytes
  starts two code units, a continuation byte none, any other byte one; the cut keeps
  whole characters.
\<close>

function collapse_white_space :: "string \<Rightarrow> string" where
  "collapse_white_space s =
     (if s = [] then []
      else if space_width white_space s = 0 then hd s # collapse_white_space (tl s)
      else CHR '' '' # collapse_white_space (skip_spaces white_space s))"
  by pat_completeness auto
termination
proof (relation "measure length")
  show "wf (measure length)" by simp
next
  fix s :: string
  assume "s \<noteq> []"
  then show "(tl s, s) \<in> measure length" by simp
next
  fix s :: string
  assume "s \<noteq> []" and w: "space_width white_space s \<noteq> 0"
  have "length (drop (space_width white_space s) s) < length s"
    using w \<open>s \<noteq> []\<close> by simp
  moreover have "\<And>sp t. length (skip_spaces sp t) \<le> length t"
  proof -
    fix sp :: "string list" and t :: string
    show "length (skip_spaces sp t) \<le> length t"
    proof (induction sp t rule: skip_spaces.induct)
      case (1 spaces s)
      then show ?case
        by (subst skip_spaces.simps) auto
    qed
  qed
  ultimately have "length (skip_spaces white_space (drop (space_width white_space s) s)) < length s"
    by (rule le_less_trans [rotated])
  then have "length (skip_spaces white_space s) < length s"
    using w by (subst skip_spaces.simps) simp
  then show "(skip_spaces white_space s, s) \<in> measure length" by simp
qed

declare collapse_white_space.simps [simp del]

definition code_units :: "char \<Rightarrow> nat" where
  "code_units c =
     (if CHR 0xF0 \<le> c then 2 else if CHR 0x80 \<le> c \<and> c < CHR 0xC0 then 0 else 1)"

fun take_units :: "nat \<Rightarrow> string \<Rightarrow> string" where
  "take_units n [] = []"
| "take_units n (c # cs) =
     (if code_units c \<le> n then c # take_units (n - code_units c) cs else [])"

definition buildRawPreview :: "string \<Rightarrow> string" where
  "buildRawPreview result = take_units 120 (trim_str (collapse_white_space result))"

text \<open>The loop of \<open>parseCollectionResult\<close> over the candidates; \<open>lastError\<close> is the
  value of its variable \<open>parseError\<close> so far.\<close>

fun parseCandidates ::
    "'n json_runtime \<Rightarrow> string \<Rightarrow> string \<Rightarrow> string \<Rightarrow> string list \<Rightarrow> string \<Rightarrow> ParseResult" where
  "parseCandidates J now result sid [] lastError =
     \<lparr> articles = [], parseError = Some lastError, rawPreview = Some (buildRawPreview result) \<rparr>"
| "parseCandidates J now result sid (candidate # candidates) lastError =
     (case JSON_parse J candidate of
        Inl msg \<Rightarrow> parseCandidates J now result sid candidates msg
      | Inr parsed \<Rightarrow>
          (case getArticlesArray parsed of
             None \<Rightarrow>
               parseCandidates J now result sid candidates
                 ''Response does not contain articles array''
           | Some articlesArray \<Rightarrow>
               (case normalizeArticles J now articlesArray sid of
                  None \<Rightarrow> parseCandidates J now result sid candidates TypeError_message
                | Some as \<Rightarrow> \<lparr> articles = as, parseError = None, rawPreview = None \<rparr>)))"

definition parseCollectionResult ::
    "'n json_runtime \<Rightarrow> string \<Rightarrow> string \<Rightarrow> string \<Rightarrow> ParseResult" where
  "parseCollectionResult J now result sid =
     parseCandidates J now result sid (extractJsonCandidates result)
       ''Response does not contain parseable JSON''"

text \<open>An answer of the fetcher for the examples: prose around one fenced block whose
  second entry has no \<open>url\<close>; and a runtime whose \<open>JSON.parse\<close> knows the text of that
  block (no number occurs in it).\<close>

definition example_block :: string where
  \<open>example_block = ''{"articles":[{"title":"A","url":"https://a.example/1"},{"title":"B"}]}''\<close>

definition example_answer :: string where
  "example_answer = ''Here you go: ```json '' @ example_block @ '' ``` done''"

definition example_json_runtime :: "int json_runtime" where
  "example_json_runtime =
     \<lparr> JSON_parse = (\<lambda>s. if s = example_block
          then Inr (JObj [(''articles'',
                 JArr [JObj [(''title'', JStr ''A''), (''url'', JStr ''https://a.example/1'')],
                       JObj [(''title'', JStr ''B'')]])])
          else Inl ''Unexpected token''),
       Number_toString = (\<lambda>n. ''0''),
       Number_truthy = (\<lambda>n. n \<noteq> 0) \<rparr>"

section \<open>Date parser\<close>

datatype DateSource = from_published_at | from_url_date | from_relative_time | from_first_seen_at

datatype FreshnessPriority = priority_high | priority_normal | priority_low

datatype DateMethod = html_meta | html_parse | url_parse | search_result | api

record DateParseResult =
  date :: "string option"
  confidence :: DateConfidence
  dsource :: DateSource
  rawText :: "string option"

record FreshnessResult =
  isFresh :: bool
  priority :: FreshnessPriority
  usedDateSource :: "DateSource option"
  reason :: string

subsection \<open>The regular expressions of the module\<close>

text \<open>
  The expressions the module writes out are sequences of a few kinds of pieces: a literal
  text; a literal text under the \<open>i\<close> flag (given in lower case; only ASCII letters
  fold onto ASCII letters); one character of a set; exactly \<open>n\<close> digits, captured;
  \<open>(\d+)\<close>, captured; \<open>\s*\<close>; and an optional piece.

  \<open>match_here\<close> matches a sequence at the start of a string and returns the captured
  groups. \<open>\d+\<close> and \<open>\s*\<close> take all they can and give nothing back: in every
  expression of the module what follows them starts with a character that is neither a
  digit nor white space, so a shorter run cannot lead to a match. An optional piece is
  tried first with the piece, then without.
\<close>

datatype piece =
  Lit string | LitI string | OneOf string | Digits nat | DigitsPlus | Spaces | Opt piece

definition is_digit :: "char \<Rightarrow> bool" where
  "is_digit c = (CHR ''0'' \<le> c \<and> c \<le> CHR ''9'')"

fun match_here :: "piece list \<Rightarrow> string \<Rightarrow> string list option" where
  "match_here [] s = Some []"
| "match_here (Lit l # ps) s =
     (if prefix l s then match_here ps (drop (length l) s) else None)"
| "match_here (LitI l # ps) s =
     (if length l \<le> length s \<and> toLowerCase (take (length l) s) = l
      then match_here ps (drop (length l) s) else None)"
| "match_here (OneOf cs # ps) s =
     (case s of [] \<Rightarrow> None
      | c # r \<Rightarrow> if c \<in> set cs then match_here ps r else None)"
| "match_here (Digits n # ps) s =
     (if n \<le> length s \<and> (\<forall>c \<in> set (take n s). is_digit c)
      then map_option ((#) (take n s)) (match_here ps (drop n s)) else None)"
| "match_here (DigitsPlus # ps) s =
     (if takeWhile is_digit s = [] then None
      else map_option ((#) (takeWhile is_digit s)) (match_here ps (dropWhile is_digit s)))"
| "match_here (Spaces # ps) s = match_here ps (skip_spaces white_space s)"
| "match_here (Opt p # ps) s =
     (case match_here (p # ps) s of Some g \<Rightarrow> Some g | None \<Rightarrow> match_here ps s)"

text \<open>\<open>s.match(re)\<close>: the groups of the leftmost match.\<close>

fun search :: "piece list \<Rightarrow> string \<Rightarrow> string list option" where
  "search ps [] = match_here ps []"
| "search ps (c # cs) =
     (case match_here ps (c # cs) of Some g \<Rightarrow> Some g | None \<Rightarrow> search ps cs)"

text \<open>\<open>match[i]\<close> for \<open>i \<ge> 1\<close>, \<open>None\<close> when there is no such group.\<close>

definition group :: "string list \<Rightarrow> nat \<Rightarrow> string option" where
  "group g i = (if 1 \<le> i \<and> i \<le> length g then Some (g ! (i - 1)) else None)"

text \<open>\<open>parseInt(s, 10)\<close> of a run of digits.\<close>

definition parseInt :: "string \<Rightarrow> nat" where
  "parseInt s = foldl (\<lambda>n c. 10 * n + (of_char c - 48)) 0 s"

definition padStart2 :: "string \<Rightarrow> string" where
  "padStart2 s = replicate (2 - length s) CHR ''0'' @ s"

subsection \<open>Layer 1: an explicit timestamp\<close>

definition parseISODate :: "js_runtime \<Rightarrow> string option \<Rightarrow> DateParseResult" where
  "parseISODate R dateString =
     (case present dateString of
        None \<Rightarrow>
          \<lparr> date = None, confidence = unknown, dsource = from_published_at, rawText = None \<rparr>
      | Some s \<Rightarrow>
          (case Date_parse R s of
             None \<Rightarrow>
               \<lparr> date = None, confidence = unknown, dsource = from_published_at,
                 rawText = Some s \<rparr>
           | Some t \<Rightarrow>
               \<lparr> date = Some (toISOString R t), confidence = high,
                 dsource = from_published_at, rawText = Some s \<rparr>))"

subsection \<open>Layer 2: a date in the URL\<close>

text \<open>\<open>/\/(\d{4})[-\/](\d{2})[-\/](\d{2})/\<close>,
  \<open>/[?&]date=(\d{4})[-\/](\d{2})[-\/](\d{2})/\<close> and
  \<open>/\/articles?\/(\d{4})(\d{2})(\d{2})/\<close>.\<close>

definition URL_DATE_PATTERNS :: "piece list list" where
  "URL_DATE_PATTERNS =
     [[Lit ''/'', Digits 4, OneOf ''-/'', Digits 2, OneOf ''-/'', Digits 2],
      [OneOf ''?&'', Lit ''date='', Digits 4, OneOf ''-/'', Digits 2, OneOf ''-/'', Digits 2],
      [Lit ''/article'', Opt (Lit ''s''), Lit ''/'', Digits 4, Digits 2, Digits 2]]"

text \<open>\<open>match[i]\<close> in the array a runtime expression returns (group 0 first).\<close>

definition match_group :: "string option list \<Rightarrow> nat \<Rightarrow> string option" where
  "match_group g i = (if i < length g then g ! i else None)"

text \<open>The body of the loop for one expression, given the three groups of its match:
  \<open>None\<close> is \<open>continue\<close>.\<close>

definition dateFromGroups ::
    "js_runtime \<Rightarrow> string option \<Rightarrow> string option \<Rightarrow> string option \<Rightarrow> DateParseResult option" where
  "dateFromGroups R g1 g2 g3 =
     (case (present g1, present g2, present g3) of
        (Some year, Some month, Some day) \<Rightarrow>
          (case Date_parse R
                  (year @ ''-'' @ padStart2 month @ ''-'' @ padStart2 day @ ''T00:00:00.000Z'') of
             Some t \<Rightarrow>
               Some \<lparr> date = Some (toISOString R t), confidence = medium,
                      dsource = from_url_date, rawText = Some (year @ ''/'' @ month @ ''/'' @ day) \<rparr>
           | None \<Rightarrow> None)
      | _ \<Rightarrow> None)"

fun tryUrlPatterns :: "js_runtime \<Rightarrow> piece list list \<Rightarrow> string \<Rightarrow> DateParseResult" where
  "tryUrlPatterns R [] u =
     \<lparr> date = None, confidence = unknown, dsource = from_url_date, rawText = None \<rparr>"
| "tryUrlPatterns R (regex # patterns) u =
     (case search regex u of
        None \<Rightarrow> tryUrlPatterns R patterns u
      | Some g \<Rightarrow>
          (case dateFromGroups R (group g 1) (group g 2) (group g 3) of
             Some r \<Rightarrow> r
           | None \<Rightarrow> tryUrlPatterns R patterns u))"

text \<open>With a pattern of the caller's the one expression is built by the runtime, which
  may refuse it with a \<open>SyntaxError\<close>.\<close>

definition parseDateFromUrl ::
    "js_runtime \<Rightarrow> string \<Rightarrow> string option \<Rightarrow> error + DateParseResult" where
  "parseDateFromUrl R u pattern =
     (case present pattern of
        None \<Rightarrow> Inr (tryUrlPatterns R URL_DATE_PATTERNS u)
      | Some p \<Rightarrow>
          (case RegExp_match R p u of
             Inl e \<Rightarrow> Inl e
           | Inr None \<Rightarrow>
               Inr \<lparr> date = None, confidence = unknown, dsource = from_url_date, rawText = None \<rparr>
           | Inr (Some g) \<Rightarrow>
               (case dateFromGroups R (match_group g 1) (match_group g 2) (match_group g 3) of
                  Some r \<Rightarrow> Inr r
                | None \<Rightarrow>
                    Inr \<lparr> date = None, confidence = unknown, dsource = from_url_date,
                          rawText = None \<rparr>)))"

subsection \<open>Layer 3: a relative time\<close>

text \<open>The Japanese characters of the phrase table, by their UTF-8 bytes, named by
  code point: \<open>U+79D2\<close> second, \<open>U+524D\<close> before, \<open>U+5206\<close> minute, \<open>U+6642\<close>
  \<open>U+9593\<close> hour, \<open>U+65E5\<close> day, \<open>U+9031\<close> week, \<open>U+30F6\<close> or \<open>U+304B\<close> with
  \<open>U+6708\<close> month, \<open>U+6628\<close> \<open>U+65E5\<close> yesterday, \<open>U+4ECA\<close> \<open>U+65E5\<close> today,
  \<open>U+5148\<close> \<open>U+9031\<close> last week.\<close>

definition U79D2 :: string where "U79D2 = [CHR 0xE7, CHR 0xA7, CHR 0x92]"
definition U524D :: string where "U524D = [CHR 0xE5, CHR 0x89, CHR 0x8D]"
definition U5206 :: string where "U5206 = [CHR 0xE5, CHR 0x88, CHR 0x86]"
definition U6642 :: string where "U6642 = [CHR 0xE6, CHR 0x99, CHR 0x82]"
definition U9593 :: string where "U9593 = [CHR 0xE9, CHR 0x96, CHR 0x93]"
definition U65E5 :: string where "U65E5 = [CHR 0xE6, CHR 0x97, CHR 0xA5]"
definition U9031 :: string where "U9031 = [CHR 0xE9, CHR 0x80, CHR 0xB1]"
definition U30F6 :: string where "U30F6 = [CHR 0xE3, CHR 0x83, CHR 0xB6]"
definition U6708 :: string where "U6708 = [CHR 0xE6, CHR 0x9C, CHR 0x88]"
definition U304B :: string where "U304B = [CHR 0xE3, CHR 0x81, CHR 0x8B]"
definition U6628 :: string where "U6628 = [CHR 0xE6, CHR 0x98, CHR 0xA8]"
definition U4ECA :: string where "U4ECA = [CHR 0xE4, CHR 0xBB, CHR 0x8A]"
definition U5148 :: string where "U5148 = [CHR 0xE5, CHR 0x85, CHR 0x88]"

definition RELATIVE_TIME_PATTERNS_ja :: "(piece list \<times> TimeUnit) list" where
  "RELATIVE_TIME_PATTERNS_ja =
     [([DigitsPlus, Spaces, Lit (U79D2 @ U524D)], seconds),
      ([DigitsPlus, Spaces, Lit (U5206 @ U524D)], minutes),
      ([DigitsPlus, Spaces, Lit (U6642 @ U9593 @ U524D)], hours),
      ([DigitsPlus, Spaces, Lit (U65E5 @ U524D)], days),
      ([DigitsPlus, Spaces, Lit (U9031 @ U9593 @ U524D)], weeks),
      ([DigitsPlus, Spaces, Lit (U30F6 @ U6708 @ U524D)], months),
      ([DigitsPlus, Spaces, Lit (U304B @ U6708 @ U524D)], months),
      ([Lit (U6628 @ U65E5)], yesterday),
      ([Lit (U4ECA @ U65E5)], today),
      ([Lit (U5148 @ U9031)], last_week)]"

definition RELATIVE_TIME_PATTERNS_en :: "(piece list \<times> TimeUnit) list" where
  "RELATIVE_TIME_PATTERNS_en =
     [([DigitsPlus, Spaces, LitI ''second'', Opt (LitI ''s''), Spaces, LitI ''ago''], seconds),
      ([DigitsPlus, Spaces, LitI ''minute'', Opt (LitI ''s''), Spaces, LitI ''ago''], minutes),
      ([DigitsPlus, Spaces, LitI ''hour'', Opt (LitI ''s''), Spaces, LitI ''ago''], hours),
      ([DigitsPlus, Spaces, LitI ''day'', Opt (LitI ''s''), Spaces, LitI ''ago''], days),
      ([DigitsPlus, Spaces, LitI ''week'', Opt (LitI ''s''), Spaces, LitI ''ago''], weeks),
      ([DigitsPlus, Spaces, LitI ''month'', Opt (LitI ''s''), Spaces, LitI ''ago''], months),
      ([LitI ''yesterday''], yesterday),
      ([LitI ''today''], today),
      ([LitI ''last'', Spaces, LitI ''week''], last_week)]"

text \<open>The date object after the setter of the unit; \<open>None\<close> is an invalid date.\<close>

fun calculateDateFromRelative :: "js_runtime \<Rightarrow> nat \<Rightarrow> TimeUnit \<Rightarrow> int \<Rightarrow> Date" where
  "calculateDateFromRelative R v seconds referenceDate = Date_minus R seconds v referenceDate"
| "calculateDateFromRelative R v minutes referenceDate = Date_minus R minutes v referenceDate"
| "calculateDateFromRelative R v hours referenceDate = Date_minus R hours v referenceDate"
| "calculateDateFromRelative R v days referenceDate = Date_minus R days v referenceDate"
| "calculateDateFromRelative R v weeks referenceDate = Date_minus R days (v * 7) referenceDate"
| "calculateDateFromRelative R v months referenceDate = Date_minus R months v referenceDate"
| "calculateDateFromRelative R v yesterday referenceDate = Date_minus R days 1 referenceDate"
| "calculateDateFromRelative R v today referenceDate = Some referenceDate"
| "calculateDateFromRelative R v last_week referenceDate = Date_minus R days 7 referenceDate"

text \<open>The two loops of \<open>parseRelativeTime\<close>, over the phrases in order; \<open>None\<close> when
  no phrase matches. The date a matching phrase gives is always an object, so the
  function returns at the first match: with \<open>toISOString()\<close> of the date, or with the
  \<open>RangeError\<close> that \<open>toISOString()\<close> throws on an invalid date.\<close>

fun tryRelativePatterns ::
    "js_runtime \<Rightarrow> (piece list \<times> TimeUnit) list \<Rightarrow> string \<Rightarrow> int
       \<Rightarrow> (error + DateParseResult) option" where
  "tryRelativePatterns R [] s referenceDate = None"
| "tryRelativePatterns R ((pattern, u) # rest) s referenceDate =
     (case search pattern s of
        None \<Rightarrow> tryRelativePatterns R rest s referenceDate
      | Some g \<Rightarrow>
          (let v = (case present (group g 1) of Some d \<Rightarrow> parseInt d | None \<Rightarrow> 1) in
           case calculateDateFromRelative R v u referenceDate of
             None \<Rightarrow> Some (Inl RangeError)
           | Some t \<Rightarrow>
               Some (Inr \<lparr> date = Some (toISOString R t), confidence = low,
                            dsource = from_relative_time, rawText = Some s \<rparr>)))"

definition parseRelativeTime :: "js_runtime \<Rightarrow> string \<Rightarrow> int \<Rightarrow> error + DateParseResult" where
  "parseRelativeTime R s referenceDate =
     (case tryRelativePatterns R (RELATIVE_TIME_PATTERNS_ja @ RELATIVE_TIME_PATTERNS_en)
             s referenceDate of
        Some r \<Rightarrow> r
      | None \<Rightarrow>
          Inr \<lparr> date = None, confidence = unknown, dsource = from_relative_time,
                rawText = Some s \<rparr>)"

subsection \<open>The layers in order, and the layer of a date method\<close>

definition parseDateMultiLayer ::
    "js_runtime \<Rightarrow> string option \<Rightarrow> string option \<Rightarrow> string option \<Rightarrow> string option \<Rightarrow> int
       \<Rightarrow> error + DateParseResult" where
  "parseDateMultiLayer R optPublishedAt optUrl relativeTimeText urlDatePattern referenceDate =
     (let layer3 =
            (case present relativeTimeText of
               None \<Rightarrow>
                 Inr \<lparr> date = None, confidence = unknown, dsource = from_first_seen_at,
                       rawText = None \<rparr>
             | Some s \<Rightarrow>
                 (case parseRelativeTime R s referenceDate of
                    Inl e \<Rightarrow> Inl e
                  | Inr r \<Rightarrow>
                      if truthy (date r) then Inr r
                      else Inr \<lparr> date = None, confidence = unknown,
                                 dsource = from_first_seen_at, rawText = None \<rparr>));
          layer2 =
            (case present optUrl of
               None \<Rightarrow> layer3
             | Some u \<Rightarrow>
                 (case parseDateFromUrl R u urlDatePattern of
                    Inl e \<Rightarrow> Inl e
                  | Inr r \<Rightarrow> if truthy (date r) then Inr r else layer3))
      in case present optPublishedAt of
           None \<Rightarrow> layer2
         | Some p \<Rightarrow>
             (let r = parseISODate R (Some p) in
              if truthy (date r) then Inr r else layer2))"

definition parseDateByMethod ::
    "js_runtime \<Rightarrow> DateMethod \<Rightarrow> string option \<Rightarrow> string option \<Rightarrow> string option \<Rightarrow>
       string option \<Rightarrow> string option \<Rightarrow> string option \<Rightarrow> int \<Rightarrow> error + DateParseResult" where
  "parseDateByMethod R method metaContent htmlContent optUrl searchResultText apiResponse
       datePattern referenceDate =
     (if method = html_meta \<or> method = api then
        Inr (parseISODate R (case metaContent of Some m \<Rightarrow> Some m | None \<Rightarrow> apiResponse))
      else if method = url_parse then
        (case present optUrl of
           Some u \<Rightarrow> parseDateFromUrl R u datePattern
         | None \<Rightarrow>
             Inr \<lparr> date = None, confidence = unknown, dsource = from_url_date, rawText = None \<rparr>)
      else
        (case present (case searchResultText of Some t \<Rightarrow> Some t | None \<Rightarrow> htmlContent) of
           Some t \<Rightarrow> parseRelativeTime R t referenceDate
         | None \<Rightarrow>
             Inr \<lparr> date = None, confidence = unknown, dsource = from_relative_time,
                   rawText = None \<rparr>))"

subsection \<open>Freshness\<close>

text \<open>One of the four blocks of \<open>checkFreshness\<close>: \<open>None\<close> when the candidate is absent
  or does not parse, so that the next one is looked at.\<close>

definition freshnessBy ::
    "js_runtime \<Rightarrow> string option \<Rightarrow> Date \<Rightarrow> FreshnessPriority \<Rightarrow> DateSource \<Rightarrow> string \<Rightarrow> string
       \<Rightarrow> FreshnessResult option" where
  "freshnessBy R candidate windowStart p src label tail_text =
     (case present candidate of
        None \<Rightarrow> None
      | Some s \<Rightarrow>
          (case Date_parse R s of
             None \<Rightarrow> None
           | Some t \<Rightarrow>
               if date_ge (Some t) windowStart then
                 Some \<lparr> isFresh = True, priority = p, usedDateSource = Some src,
                        reason = label @ '' '' @ s @ '' is within window'' @ tail_text \<rparr>
               else
                 Some \<lparr> isFresh = False, priority = p, usedDateSource = Some src,
                        reason = label @ '' '' @ s @ '' is before window start'' @ tail_text \<rparr>))"

definition checkFreshness ::
    "js_runtime \<Rightarrow> string option \<Rightarrow> string option \<Rightarrow> string option \<Rightarrow> string option \<Rightarrow> Date
       \<Rightarrow> FreshnessResult" where
  "checkFreshness R optPublishedAt optUrlDate optRelativeTimeParsed firstSeenAt windowStart =
     (case freshnessBy R optPublishedAt windowStart priority_high from_published_at
             ''Published at'' [] of
        Some r \<Rightarrow> r
      | None \<Rightarrow>
     (case freshnessBy R optUrlDate windowStart priority_normal from_url_date
             ''URL date'' [] of
        Some r \<Rightarrow> r
      | None \<Rightarrow>
     (case freshnessBy R optRelativeTimeParsed windowStart priority_normal from_relative_time
             ''Relative time'' [] of
        Some r \<Rightarrow> r
      | None \<Rightarrow>
     (case freshnessBy R firstSeenAt windowStart priority_low from_first_seen_at
             ''First seen at'' '' (fallback)'' of
        Some r \<Rightarrow> r
      | None \<Rightarrow>
          \<lparr> isFresh = True, priority = priority_low, usedDateSource = None,
            reason = ''All dates unknown, including with low priority'' \<rparr>))))"

section \<open>Deduplicator: the freshness stage\<close>

text \<open>An article as it reaches the freshness stage, with the normalised URL the first
  stage attached; and as the stage returns it.\<close>

record UrlArticle = RawArticle +
  normalizedUrl :: string
  similarityScore :: "real option"

record FilteredArticle = UrlArticle +
  isNew :: bool
  dateConfidence :: DateConfidence
  dateSource :: "DateSource option"
  urlDate :: "string option"
  relativeTimeParsed :: "string option"
  freshnessPriority :: FreshnessPriority

record DateMethodConfig =
  cfg_type :: DateMethod
  cfg_selector :: "string option"
  cfg_pattern :: "string option"

text \<open>The date of an article: the \<open>dateResult\<close> of the callback in
  \<open>filterByFreshness\<close>. \<open>now\<close> is the \<open>new Date()\<close> of the stage.\<close>

definition articleDate ::
    "js_runtime \<Rightarrow> int \<Rightarrow> (string \<rightharpoonup> DateMethodConfig) \<Rightarrow> UrlArticle \<Rightarrow> error + DateParseResult" where
  "articleDate R now dateMethodMap article =
     (case present (publishedAt article) of
        Some p \<Rightarrow>
          (case Date_parse R p of
             None \<Rightarrow>
               Inr \<lparr> date = None, confidence = unknown, dsource = from_first_seen_at,
                     rawText = None \<rparr>
           | Some t \<Rightarrow>
               Inr \<lparr> date = Some (toISOString R t), confidence = high,
                     dsource = from_published_at, rawText = None \<rparr>)
      | None \<Rightarrow>
          (case dateMethodMap (source article) of
             Some methodConfig \<Rightarrow>
               parseDateByMethod R (cfg_type methodConfig) (dateMetaContent article) None
                 (Some (url article)) (dateMetaContent article) None (cfg_pattern methodConfig) now
           | None \<Rightarrow>
               parseDateMultiLayer R None (Some (url article)) None None now))"

definition classifyArticle ::
    "js_runtime \<Rightarrow> int \<Rightarrow> Date \<Rightarrow> (string \<rightharpoonup> DateMethodConfig) \<Rightarrow> UrlArticle
       \<Rightarrow> error + FilteredArticle" where
  "classifyArticle R now windowStart dateMethodMap article =
     (case articleDate R now dateMethodMap article of
        Inl e \<Rightarrow> Inl e
      | Inr dateResult \<Rightarrow>
          (let freshnessResult =
                 checkFreshness R
                   (if dsource dateResult = from_published_at then date dateResult else None)
                   (if dsource dateResult = from_url_date then date dateResult else None)
                   (if dsource dateResult = from_relative_time then date dateResult else None)
                   None windowStart
           in Inr \<lparr> url = url article, title = title article, summary = summary article,
                    source = source article, collectedAt = collectedAt article,
                    publishedAt = date dateResult,
                    dateMetaContent = dateMetaContent article,
                    normalizedUrl = normalizedUrl article,
                    similarityScore = similarityScore article,
                    isNew = isFresh freshnessResult,
                    dateConfidence = confidence dateResult,
                    dateSource = Some (dsource dateResult),
                    urlDate = (if dsource dateResult = from_url_date then date dateResult else None),
                    relativeTimeParsed =
                      (if dsource dateResult = from_relative_time then date dateResult else None),
                    freshnessPriority = priority freshnessResult \<rparr>))"

text \<open>\<open>xs.map(f)\<close> with a callback that may throw: the first exception ends it.\<close>

fun map_throwing :: "('a \<Rightarrow> error + 'b) \<Rightarrow> 'a list \<Rightarrow> error + 'b list" where
  "map_throwing f [] = Inr []"
| "map_throwing f (x # xs) =
     (case f x of
        Inl e \<Rightarrow> Inl e
      | Inr y \<Rightarrow> (case map_throwing f xs of Inl e \<Rightarrow> Inl e | Inr ys \<Rightarrow> Inr (y # ys)))"

definition filterByFreshness ::
    "js_runtime \<Rightarrow> int \<Rightarrow> UrlArticle list \<Rightarrow> Date \<Rightarrow> (string \<rightharpoonup> DateMethodConfig)
       \<Rightarrow> error + FilteredArticle list" where
  "filterByFreshness R now arts windowStart dateMethodMap =
     (case map_throwing (classifyArticle R now windowStart dateMethodMap) arts of
        Inl e \<Rightarrow> Inl e
      | Inr filteredArticles \<Rightarrow>
          Inr (filter (\<lambda>article. isNew article \<or> dateConfidence article = unknown)
                 filteredArticles))"

text \<open>Articles for the examples: one whose URL carries no date and whose date text
  says three hours ago, and one, of 2024-01-12, that is older than the window.\<close>

definition undated_article :: UrlArticle where
  "undated_article =
     \<lparr> url = ''https://example.com/blog/claude-news'', title = ''Claude news'',
       summary = None, source = ''example_blog'', collectedAt = None, publishedAt = None,
       dateMetaContent = Some ''3 hours ago'',
       normalizedUrl = ''https://example.com/blog/claude-news'', similarityScore = None \<rparr>"

definition old_article :: UrlArticle where
  "old_article =
     \<lparr> url = ''https://example.com/old'', title = ''Old news'',
       summary = None, source = ''example_blog'', collectedAt = None,
       publishedAt = Some ''2024-01-12T09:59:59.999Z'',
       dateMetaContent = None,
       normalizedUrl = ''https://example.com/old'', similarityScore = None \<rparr>"

section \<open>Theorems\<close>

subsection \<open>C3: retries by tier\<close>

text \<open>
  C3, as stated, fails on the code: the claim takes the effective retry count of a tier-3
  source to be \<open>max c 0\<close>, that is the configured count \<open>c\<close>; the code returns 0 for
  tier 3 whatever is configured. At \<open>c = 2\<close> the code gives 0 and the claim 2.
\<close>

theorem getRetriesByTier_tier3_counterexample:
  "getRetriesByTier Tier3 2 \<noteq> max 2 (spec_tierFloor Tier3)"
  by simp

text \<open>
  C3, amended: for tiers 1 and 2 the effective retry count is the larger of the configured
  count and the tier floor (3 and 1); for tier 3 it is 0 for every configured count.
\<close>

theorem getRetriesByTier_amended:
  "(t \<noteq> Tier3 \<longrightarrow> getRetriesByTier t c = max c (spec_tierFloor t)) \<and>
   getRetriesByTier Tier3 c = 0"
  by (cases t) simp_all

theorem getRetriesByTier_amended_witness:
  "Tier1 \<noteq> Tier3 \<and> getRetriesByTier Tier1 5 = max 5 (spec_tierFloor Tier1) \<and>
   getRetriesByTier Tier3 5 = 0"
  using getRetriesByTier_amended [of Tier1 5] by simp

subsection \<open>C1: the window start on a Monday\<close>

text \<open>
  C1, as stated, fails on the code: on a Monday with a last success one millisecond more
  than 72 hours back (now is 2024-01-15T10:00:00Z, a Monday; the last success is
  2024-01-12T09:59:59.999Z), the claim gives the last success, the earlier of the two
  instants; the code returns now minus 72 hours.
\<close>

theorem calculateWindowStart_monday_counterexample:
  "getDay utc_runtime 1705312800000 = 1 \<and>
   Date_parse utc_runtime ''2024-01-12T09:59:59.999Z'' = Some 1705053599999 \<and>
   1705312800000 = 1705053599999 + 72 * 60 * 60 * 1000 + (1::int) \<and>
   calculateWindowStart utc_runtime (Some ''2024-01-12T09:59:59.999Z'') 1705312800000
     \<noteq> Some (min 1705053599999 (1705312800000 - 72 * 60 * 60 * 1000))"
  by (simp add: calculateWindowStart_def getDay_def utc_runtime_def)

text \<open>
  C1, amended: when now falls on a Monday (in the zone the process runs in) and the last
  success is a timestamp that parses, the window starts at the later of the last success
  and now minus 72 hours; so when now is the last success plus 72 hours plus some
  \<open>e > 0\<close>, it starts at now minus 72 hours, which is the last success plus \<open>e\<close>.
\<close>

theorem calculateWindowStart_monday:
  assumes "getDay R now = 1" and "s \<noteq> []" and "Date_parse R s = Some t"
  shows "calculateWindowStart R (Some s) now = Some (max t (now - 72 * 60 * 60 * 1000)) \<and>
         (\<forall>e. 0 < e \<and> now = t + 72 * 60 * 60 * 1000 + e \<longrightarrow>
              calculateWindowStart R (Some s) now = Some (t + e))"
  using assms by (auto simp: calculateWindowStart_def Let_def max_def)

theorem calculateWindowStart_monday_witness:
  "getDay utc_runtime 1705312800000 = 1 \<and>
   Date_parse utc_runtime ''2024-01-12T09:59:59.999Z'' = Some 1705053599999 \<and>
   calculateWindowStart utc_runtime (Some ''2024-01-12T09:59:59.999Z'') 1705312800000
     = Some 1705053600000"
proof -
  have d: "getDay utc_runtime 1705312800000 = 1"
    by (simp add: getDay_def utc_runtime_def)
  have p: "Date_parse utc_runtime ''2024-01-12T09:59:59.999Z'' = Some 1705053599999"
    by (simp add: utc_runtime_def)
  have n: "''2024-01-12T09:59:59.999Z'' \<noteq> []" by simp
  from calculateWindowStart_monday [OF d n p] d p show ?thesis by simp
qed

subsection \<open>History store: what an update does to the stored row\<close>

lemma find_map_updateRow:
  "find (\<lambda>row. normalized_url row = e_normalizedUrl entry) (map (updateRow entry) rs) =
   map_option (updateRow entry) (find (\<lambda>row. normalized_url row = e_normalizedUrl entry) rs)"
  by (induction rs) (auto simp: updateRow_def)

lemma upsert_existing:
  assumes "selectByNormalizedUrl db (e_normalizedUrl entry) = Some row"
  shows "upsert db entry =
           ((rowToEntry row)\<lparr> e_lastSeenAt := e_lastSeenAt entry \<rparr>,
            db\<lparr> rows := map (updateRow entry) (rows db) \<rparr>)"
  using assms by (simp add: upsert_def findByNormalizedUrl_def)

lemma select_after_upsert:
  assumes "selectByNormalizedUrl db (e_normalizedUrl entry) = Some row"
  shows "selectByNormalizedUrl (snd (upsert db entry)) (e_normalizedUrl entry) =
           Some (updateRow entry row)"
  using assms
  by (simp add: upsert_existing [OF assms] selectByNormalizedUrl_def find_map_updateRow)

lemma selected_row_url:
  "selectByNormalizedUrl db u = Some row \<Longrightarrow> normalized_url row = u"
  by (auto simp: selectByNormalizedUrl_def find_Some_iff)

text \<open>
  C2, as stated, fails on the code: the stored row of the example has a publication date
  and the confidence \<open>high\<close>; after the upsert of a later sighting of the same normalised
  URL, which carries another publication date and the confidence \<open>medium\<close>, the stored
  row has the sighting's values. A non-empty stored field was replaced.
\<close>

theorem upsert_overwrites_counterexample:
  "selectByNormalizedUrl example_store (e_normalizedUrl example_sighting) = Some example_row \<and>
   published_at example_row = Some ''2024-01-10T08:00:00.000Z'' \<and>
   date_confidence example_row = high \<and>
   map_option published_at
     (selectByNormalizedUrl (snd (upsert example_store example_sighting))
        (e_normalizedUrl example_sighting)) = Some (Some ''2024-01-12T00:00:00.000Z'') \<and>
   map_option date_confidence
     (selectByNormalizedUrl (snd (upsert example_store example_sighting))
        (e_normalizedUrl example_sighting)) = Some medium"
  by (simp add: selectByNormalizedUrl_def upsert_def findByNormalizedUrl_def updateRow_def
      example_store_def example_row_def example_sighting_def)

text \<open>
  C2, amended: when a row is stored under the normalised URL of the entry, the row stored
  under it after \<open>upsert\<close> has \<open>last_seen_at\<close> equal to the entry's, \<open>first_seen_at\<close> (and
  id, url, title, source) unchanged, \<open>date_confidence\<close> equal to the entry's, and each of
  \<open>published_at\<close>, \<open>title_hash\<close>, \<open>content_hash\<close> equal to the entry's value when the
  entry has one and unchanged when it has none; so no field that held a value is left
  NULL.
\<close>

theorem upsert_stored_row:
  assumes "selectByNormalizedUrl db (e_normalizedUrl entry) = Some row"
  shows "\<exists>row'. selectByNormalizedUrl (snd (upsert db entry)) (e_normalizedUrl entry) = Some row' \<and>
           last_seen_at row' = e_lastSeenAt entry \<and>
           first_seen_at row' = first_seen_at row \<and>
           row_id row' = row_id row \<and> row_url row' = row_url row \<and>
           row_title row' = row_title row \<and> row_source row' = row_source row \<and>
           date_confidence row' = e_dateConfidence entry \<and>
           published_at row' =
             (case e_publishedAt entry of Some v \<Rightarrow> Some v | None \<Rightarrow> published_at row) \<and>
           title_hash row' =
             (case e_titleHash entry of Some v \<Rightarrow> Some v | None \<Rightarrow> title_hash row) \<and>
           content_hash row' =
             (case e_contentHash entry of Some v \<Rightarrow> Some v | None \<Rightarrow> content_hash row) \<and>
           (published_at row \<noteq> None \<longrightarrow> published_at row' \<noteq> None) \<and>
           (title_hash row \<noteq> None \<longrightarrow> title_hash row' \<noteq> None) \<and>
           (content_hash row \<noteq> None \<longrightarrow> content_hash row' \<noteq> None)"
proof -
  have u: "normalized_url row = e_normalizedUrl entry"
    using assms by (rule selected_row_url)
  have "selectByNormalizedUrl (snd (upsert db entry)) (e_normalizedUrl entry) =
          Some (updateRow entry row)"
    using assms by (rule select_after_upsert)
  moreover have "last_seen_at (updateRow entry row) = e_lastSeenAt entry"
    and "first_seen_at (updateRow entry row) = first_seen_at row"
    and "row_id (updateRow entry row) = row_id row"
    and "row_url (updateRow entry row) = row_url row"
    and "row_title (updateRow entry row) = row_title row"
    and "row_source (updateRow entry row) = row_source row"
    and "date_confidence (updateRow entry row) = e_dateConfidence entry"
    using u by (simp_all add: updateRow_def)
  moreover have "published_at (updateRow entry row) =
      (case e_publishedAt entry of Some v \<Rightarrow> Some v | None \<Rightarrow> published_at row)"
    and "title_hash (updateRow entry row) =
      (case e_titleHash entry of Some v \<Rightarrow> Some v | None \<Rightarrow> title_hash row)"
    and "content_hash (updateRow entry row) =
      (case e_contentHash entry of Some v \<Rightarrow> Some v | None \<Rightarrow> content_hash row)"
    using u by (simp_all add: updateRow_def split: option.splits)
  ultimately show ?thesis
    by (auto split: option.splits)
qed

theorem upsert_stored_row_witness:
  "selectByNormalizedUrl example_store (e_normalizedUrl example_sighting) = Some example_row \<and>
   (\<exists>row'. selectByNormalizedUrl (snd (upsert example_store example_sighting))
             (e_normalizedUrl example_sighting) = Some row' \<and>
           last_seen_at row' = ''2024-01-20T10:00:00.000Z'' \<and>
           first_seen_at row' = ''2024-01-15T10:00:00.000Z'' \<and>
           published_at row' = Some ''2024-01-12T00:00:00.000Z'' \<and>
           title_hash row' = Some ''abc123'' \<and>
           content_hash row' = None)"
proof -
  have s: "selectByNormalizedUrl example_store (e_normalizedUrl example_sighting) = Some example_row"
    by (simp add: selectByNormalizedUrl_def example_store_def example_row_def
        example_sighting_def)
  from upsert_stored_row [OF s] obtain row' where
    "selectByNormalizedUrl (snd (upsert example_store example_sighting))
       (e_normalizedUrl example_sighting) = Some row'"
    "last_seen_at row' = e_lastSeenAt example_sighting"
    "first_seen_at row' = first_seen_at example_row"
    "published_at row' =
       (case e_publishedAt example_sighting of Some v \<Rightarrow> Some v | None \<Rightarrow> published_at example_row)"
    "title_hash row' =
       (case e_titleHash example_sighting of Some v \<Rightarrow> Some v | None \<Rightarrow> title_hash example_row)"
    "content_hash row' =
       (case e_contentHash example_sighting of Some v \<Rightarrow> Some v | None \<Rightarrow> content_hash example_row)"
    by blast
  then have "selectByNormalizedUrl (snd (upsert example_store example_sighting))
             (e_normalizedUrl example_sighting) = Some row' \<and>
           last_seen_at row' = ''2024-01-20T10:00:00.000Z'' \<and>
           first_seen_at row' = ''2024-01-15T10:00:00.000Z'' \<and>
           published_at row' = Some ''2024-01-12T00:00:00.000Z'' \<and>
           title_hash row' = Some ''abc123'' \<and>
           content_hash row' = None"
    by (simp add: example_sighting_def example_row_def)
  with s show ?thesis by blast
qed

subsection \<open>History store: what an update returns\<close>

text \<open>
  C10: when the normalised URL of the entry is already stored, \<open>upsert\<close> returns the
  entry that was stored before the call with only \<open>lastSeenAt\<close> replaced by the
  argument's; the publication date, confidence and hashes of the returned entry are the
  old stored ones, not the ones the update writes.
\<close>

theorem upsert_returns_previous:
  assumes "findByNormalizedUrl db (e_normalizedUrl entry) = Some existing"
  shows "fst (upsert db entry) = existing\<lparr> e_lastSeenAt := e_lastSeenAt entry \<rparr> \<and>
         e_publishedAt (fst (upsert db entry)) = e_publishedAt existing \<and>
         e_dateConfidence (fst (upsert db entry)) = e_dateConfidence existing \<and>
         e_titleHash (fst (upsert db entry)) = e_titleHash existing \<and>
         e_contentHash (fst (upsert db entry)) = e_contentHash existing \<and>
         e_firstSeenAt (fst (upsert db entry)) = e_firstSeenAt existing"
  using assms by (simp add: upsert_def)

text \<open>On the example the returned entry keeps the old publication date and confidence,
  while the row stored after the call has the new ones.\<close>

theorem upsert_returns_previous_witness:
  "findByNormalizedUrl example_store (e_normalizedUrl example_sighting)
     = Some (rowToEntry example_row) \<and>
   fst (upsert example_store example_sighting)
     = (rowToEntry example_row)\<lparr> e_lastSeenAt := ''2024-01-20T10:00:00.000Z'' \<rparr> \<and>
   e_publishedAt (fst (upsert example_store example_sighting))
     = Some ''2024-01-10T08:00:00.000Z'' \<and>
   e_dateConfidence (fst (upsert example_store example_sighting)) = high \<and>
   findByNormalizedUrl (snd (upsert example_store example_sighting))
       (e_normalizedUrl example_sighting)
     \<noteq> Some (fst (upsert example_store example_sighting))"
proof -
  have f: "findByNormalizedUrl example_store (e_normalizedUrl example_sighting)
             = Some (rowToEntry example_row)"
    by (simp add: findByNormalizedUrl_def selectByNormalizedUrl_def example_store_def
        example_row_def example_sighting_def)
  have r: "fst (upsert example_store example_sighting)
             = (rowToEntry example_row)\<lparr> e_lastSeenAt := e_lastSeenAt example_sighting \<rparr>"
    using upsert_returns_previous [OF f] by blast
  have l: "e_lastSeenAt example_sighting = ''2024-01-20T10:00:00.000Z''"
    by (simp add: example_sighting_def)
  have p: "e_publishedAt (fst (upsert example_store example_sighting))
             = Some ''2024-01-10T08:00:00.000Z''"
    by (simp add: r rowToEntry_def example_row_def)
  have c: "e_dateConfidence (fst (upsert example_store example_sighting)) = high"
    by (simp add: r rowToEntry_def example_row_def)
  have s: "selectByNormalizedUrl example_store (e_normalizedUrl example_sighting) = Some example_row"
    by (simp add: selectByNormalizedUrl_def example_store_def example_row_def
        example_sighting_def)
  have "findByNormalizedUrl (snd (upsert example_store example_sighting))
             (e_normalizedUrl example_sighting)
           = Some (rowToEntry (updateRow example_sighting example_row))"
    by (simp only: findByNormalizedUrl_def select_after_upsert [OF s] option.map)
  moreover have "e_dateConfidence (rowToEntry (updateRow example_sighting example_row)) = medium"
    by (simp add: rowToEntry_def updateRow_def example_sighting_def example_row_def)
  ultimately have "map_option e_dateConfidence
          (findByNormalizedUrl (snd (upsert example_store example_sighting))
             (e_normalizedUrl example_sighting)) = Some medium"
    by simp
  with c have d: "findByNormalizedUrl (snd (upsert example_store example_sighting))
       (e_normalizedUrl example_sighting) \<noteq> Some (fst (upsert example_store example_sighting))"
    by auto
  from f r l p c d show ?thesis by simp
qed

subsection \<open>Abort-heavy sources\<close>

lemma set_set_add: "set (set_add x xs) = insert x (set xs)"
  by (auto simp: set_add_def)

lemma distinct_set_add: "distinct xs \<Longrightarrow> distinct (set_add x xs)"
  by (simp add: set_add_def)

lemma abortHeavyStep_set:
  "set (abortHeavyStep e ids) = (if abortHeavy e then insert (sourceId e) (set ids) else set ids)"
  by (auto simp: abortHeavyStep_def abortHeavy_def set_set_add)

lemma abortHeavyStep_distinct: "distinct ids \<Longrightarrow> distinct (abortHeavyStep e ids)"
  by (simp add: abortHeavyStep_def distinct_set_add)

lemma fold_abortHeavyStep_set:
  "set (fold abortHeavyStep errors ids) =
     set ids \<union> {sourceId e | e. e \<in> set errors \<and> abortHeavy e}"
proof (induction errors arbitrary: ids)
  case Nil
  then show ?case by simp
next
  case (Cons e errors)
  show ?case
    by (simp add: Cons.IH abortHeavyStep_set) blast
qed

lemma fold_abortHeavyStep_distinct:
  "distinct ids \<Longrightarrow> distinct (fold abortHeavyStep errors ids)"
  by (induction errors arbitrary: ids) (simp_all add: abortHeavyStep_distinct)

text \<open>
  C8: a source id is in the result of \<open>findAbortHeavySourceIds\<close> exactly when some error
  of that source has a retry count of at least 1 and a message that, lowered, contains
  \<open>aborted by user\<close>, \<open>process aborted\<close> or \<open>operation aborted\<close>; and no source id
  occurs twice in the result.
\<close>

theorem findAbortHeavySourceIds_iff:
  "(sid \<in> set (findAbortHeavySourceIds errors) \<longleftrightarrow>
      (\<exists>e. e \<in> set errors \<and> sourceId e = sid \<and> retryCount e \<ge> 1 \<and>
           (str_includes (toLowerCase (message e)) ''aborted by user'' \<or>
            str_includes (toLowerCase (message e)) ''process aborted'' \<or>
            str_includes (toLowerCase (message e)) ''operation aborted''))) \<and>
   distinct (findAbortHeavySourceIds errors)"
proof -
  have "set (findAbortHeavySourceIds errors) = {sourceId e | e. e \<in> set errors \<and> abortHeavy e}"
    by (simp add: findAbortHeavySourceIds_def fold_abortHeavyStep_set)
  moreover have "distinct (findAbortHeavySourceIds errors)"
    by (simp add: findAbortHeavySourceIds_def fold_abortHeavyStep_distinct)
  ultimately show ?thesis
    by (auto simp: abortHeavy_def isAbortMessage_def)
qed

text \<open>The repository's unit test: of three sources with errors, only \<open>hackernews\<close> is
  abort-heavy, and it is reported once.\<close>

lemma findAbortHeavySourceIds_test:
  "findAbortHeavySourceIds test_errors = [''hackernews'']"
  by (simp add: findAbortHeavySourceIds_def test_errors_def abortHeavyStep_def
      isAbortMessage_def toLowerCase_def lower_char_def set_add_def)

subsection \<open>Jaccard similarity\<close>

lemma Set_of_fold: "set (fold set_add xs acc) = set acc \<union> set xs"
  by (induction xs arbitrary: acc) (auto simp: set_set_add)

lemma distinct_fold_set_add: "distinct acc \<Longrightarrow> distinct (fold set_add xs acc)"
  by (induction xs arbitrary: acc) (simp_all add: distinct_set_add)

lemma set_Set_of: "set (Set_of xs) = set xs"
  by (simp add: Set_of_def Set_of_fold)

lemma distinct_Set_of: "distinct (Set_of xs)"
  by (simp add: Set_of_def distinct_fold_set_add)

lemma length_Set_of: "length (Set_of xs) = card (set xs)"
  using distinct_card [OF distinct_Set_of, of xs] by (simp add: set_Set_of)

text \<open>The similarity in terms of the two token sets.\<close>

lemma jaccard_card:
  "calculateJaccardSimilarity R a b =
     (let A = set (tokenize R a); B = set (tokenize R b)
      in if A = {} \<and> B = {} then 1
         else if A = {} \<or> B = {} then 0
         else real (card (A \<inter> B)) / real (card (A \<union> B)))"
proof -
  have "set (filter (\<lambda>x. x \<in> set (tokenize R b)) (tokenize R a)) =
          set (tokenize R a) \<inter> set (tokenize R b)"
    by auto
  then show ?thesis
    by (simp add: calculateJaccardSimilarity_def Let_def length_Set_of)
qed

lemma card_ratio_bounds:
  assumes "finite A" "finite B" "A \<noteq> {}"
  shows "0 \<le> real (card (A \<inter> B)) / real (card (A \<union> B))"
    and "real (card (A \<inter> B)) / real (card (A \<union> B)) \<le> 1"
    and "real (card (A \<inter> B)) / real (card (A \<union> B)) = 1 \<longleftrightarrow> A = B"
proof -
  have pos: "0 < card (A \<union> B)"
    using assms by (simp add: card_gt_0_iff)
  have le: "card (A \<inter> B) \<le> card (A \<union> B)"
    using assms by (intro card_mono) auto
  show "0 \<le> real (card (A \<inter> B)) / real (card (A \<union> B))" by simp
  show "real (card (A \<inter> B)) / real (card (A \<union> B)) \<le> 1"
    using pos le by (simp add: divide_le_eq_1)
  have "real (card (A \<inter> B)) / real (card (A \<union> B)) = 1 \<longleftrightarrow> card (A \<inter> B) = card (A \<union> B)"
    using pos by auto
  also have "\<dots> \<longleftrightarrow> A \<inter> B = A \<union> B"
  proof
    assume "card (A \<inter> B) = card (A \<union> B)"
    then show "A \<inter> B = A \<union> B"
      using assms by (intro card_subset_eq) auto
  qed simp
  also have "\<dots> \<longleftrightarrow> A = B" by blast
  finally show "real (card (A \<inter> B)) / real (card (A \<union> B)) = 1 \<longleftrightarrow> A = B" .
qed

text \<open>
  C6: the Jaccard similarity of two texts is symmetric, lies between 0 and 1, is 1
  exactly when the two token sets are equal (so also when both are empty), and is 0 when
  exactly one token set is empty. This holds whatever \<open>toLowerCase\<close> the runtime has.
\<close>

theorem calculateJaccardSimilarity_properties:
  "calculateJaccardSimilarity R a b = calculateJaccardSimilarity R b a \<and>
   0 \<le> calculateJaccardSimilarity R a b \<and>
   calculateJaccardSimilarity R a b \<le> 1 \<and>
   (calculateJaccardSimilarity R a b = 1 \<longleftrightarrow> set (tokenize R a) = set (tokenize R b)) \<and>
   (tokenize R a = [] \<and> tokenize R b = [] \<longrightarrow> calculateJaccardSimilarity R a b = 1) \<and>
   ((tokenize R a = []) \<noteq> (tokenize R b = []) \<longrightarrow> calculateJaccardSimilarity R a b = 0)"
proof -
  let ?A = "set (tokenize R a)" and ?B = "set (tokenize R b)"
  have sym: "calculateJaccardSimilarity R a b = calculateJaccardSimilarity R b a"
    by (simp add: jaccard_card Let_def Int_commute Un_commute)
  show ?thesis
  proof (cases "?A = {} \<or> ?B = {}")
    case True
    then show ?thesis
      using sym by (auto simp: jaccard_card Let_def)
  next
    case False
    then have ne: "?A \<noteq> {}" "?B \<noteq> {}" by auto
    have j: "calculateJaccardSimilarity R a b = real (card (?A \<inter> ?B)) / real (card (?A \<union> ?B))"
      using ne by (simp add: jaccard_card Let_def)
    have nil: "tokenize R a \<noteq> []" "tokenize R b \<noteq> []"
      using ne by auto
    have fin: "finite ?A" "finite ?B" by simp_all
    have "0 \<le> calculateJaccardSimilarity R a b"
      and "calculateJaccardSimilarity R a b \<le> 1"
      and "calculateJaccardSimilarity R a b = 1 \<longleftrightarrow> ?A = ?B"
      using card_ratio_bounds [OF fin ne(1)] by (simp_all only: j)
    with sym nil show ?thesis by simp
  qed
qed

theorem calculateJaccardSimilarity_properties_witness:
  "tokenize utc_runtime (ustr []) = [] \<and>
   tokenize utc_runtime (ustr ''Claude 4'') = [ustr ''claude'', ustr ''4''] \<and>
   calculateJaccardSimilarity utc_runtime (ustr []) (ustr []) = 1 \<and>
   calculateJaccardSimilarity utc_runtime (ustr ''Claude 4'') (ustr []) = 0 \<and>
   calculateJaccardSimilarity utc_runtime (ustr []) (ustr ''Claude 4'') = 0"
proof -
  have e: "tokenize utc_runtime (ustr []) = []"
    by (simp add: tokenize_def normalizeText_def utc_runtime_def ustr_def trim_def Set_of_def)
  have c: "tokenize utc_runtime (ustr ''Claude 4'') = [ustr ''claude'', ustr ''4'']"
    by (simp add: tokenize_def normalizeText_def utc_runtime_def ustr_def trim_def
        is_space_def is_alnum_def to_half_width_def ideographic_space_to_space_def
        Set_of_def set_add_def)
  have ne: "(tokenize utc_runtime (ustr ''Claude 4'') = []) \<noteq> (tokenize utc_runtime (ustr []) = [])"
    by (simp add: e c)
  from calculateJaccardSimilarity_properties [of utc_runtime "ustr []" "ustr []"] e
  have 1: "calculateJaccardSimilarity utc_runtime (ustr []) (ustr []) = 1"
    by blast
  from calculateJaccardSimilarity_properties [of utc_runtime "ustr ''Claude 4''" "ustr []"] ne
  have 2: "calculateJaccardSimilarity utc_runtime (ustr ''Claude 4'') (ustr []) = 0"
    and 3: "calculateJaccardSimilarity utc_runtime (ustr []) (ustr ''Claude 4'') = 0"
    by simp_all
  from e c 1 2 3 show ?thesis by simp
qed

text \<open>Two titles that share two of their four tokens: the similarity is a half.\<close>

lemma calculateJaccardSimilarity_example:
  "calculateJaccardSimilarity utc_runtime (ustr ''Claude 4 released'') (ustr ''CLAUDE 4 review'')
     = 1 / 2"
  by (simp add: calculateJaccardSimilarity_def tokenize_def normalizeText_def utc_runtime_def
      ustr_def trim_def is_space_def is_alnum_def to_half_width_def
      ideographic_space_to_space_def Set_of_def set_add_def)

subsection \<open>Parsing a collection result\<close>

lemma all_some_map_Some:
  "all_some (map f xs) = Some ys \<Longrightarrow> y \<in> set ys \<Longrightarrow> \<exists>x \<in> set xs. f x = Some y"
proof (induction xs arbitrary: ys)
  case Nil
  then show ?case by simp
next
  case (Cons x xs)
  then show ?case
    by (cases "f x") (auto split: option.splits)
qed

lemma toRawArticle_stamps:
  "toRawArticle J now sid article = Some a \<Longrightarrow> source a = sid \<and> collectedAt a = Some now"
  by (auto simp: toRawArticle_def split: option.splits)

lemma normalizeArticles_article:
  assumes "normalizeArticles J now items sid = Some as" and "a \<in> set as"
  shows "title a \<noteq> [] \<and> url a \<noteq> [] \<and> source a = sid \<and> collectedAt a = Some now"
proof -
  from assms obtain bs where
    bs: "all_some (map (toRawArticle J now sid) (filter is_object items)) = Some bs"
    and a: "a \<in> set bs" "title a \<noteq> []" "url a \<noteq> []"
    by (auto simp: normalizeArticles_def)
  from all_some_map_Some [OF bs a(1)] obtain item where "toRawArticle J now sid item = Some a"
    by blast
  with toRawArticle_stamps a show ?thesis by blast
qed

lemma parseCandidates_article:
  "a \<in> set (articles (parseCandidates J now result sid candidates err)) \<Longrightarrow>
   title a \<noteq> [] \<and> url a \<noteq> [] \<and> source a = sid \<and> collectedAt a = Some now"
proof (induction candidates arbitrary: err)
  case Nil
  then show ?case by simp
next
  case (Cons c cs)
  then show ?case
    by (auto split: sum.splits option.splits dest: normalizeArticles_article)
qed

text \<open>An entry lacks a field when the key is absent or its value is \<open>null\<close>.\<close>

lemma toRawArticle_lacking:
  assumes "toRawArticle J now sid item = Some a"
    and "or_empty (get_prop item ''title'') = JStr [] \<or> or_empty (get_prop item ''url'') = JStr []"
  shows "title a = [] \<or> url a = []"
  using assms by (auto simp: toRawArticle_def split: option.splits)

lemma normalizeArticles_drops:
  assumes "normalizeArticles J now items sid = Some as"
  shows "normalizeArticles J now
           (filter (\<lambda>item. or_empty (get_prop item ''title'') \<noteq> JStr [] \<and>
                           or_empty (get_prop item ''url'') \<noteq> JStr []) items) sid = Some as"
proof -
  let ?has = "\<lambda>item. or_empty (get_prop item ''title'') \<noteq> JStr [] \<and>
                       or_empty (get_prop item ''url'') \<noteq> JStr []"
  let ?keep = "\<lambda>a. title a \<noteq> [] \<and> url a \<noteq> []"
  have drop_step: "\<And>bs. all_some (map (toRawArticle J now sid) xs) = Some bs \<Longrightarrow>
          \<exists>cs. all_some (map (toRawArticle J now sid) (filter ?has xs)) = Some cs \<and>
               filter ?keep cs = filter ?keep bs" for xs
  proof (induction xs)
    case Nil
    then show ?case by simp
  next
    case (Cons x xs)
    from Cons.prems obtain b bs' where
      b: "toRawArticle J now sid x = Some b"
      and bs': "all_some (map (toRawArticle J now sid) xs) = Some bs'"
      and bs: "bs = b # bs'"
      by (cases "toRawArticle J now sid x") (auto split: option.splits)
    from Cons.IH [OF bs'] obtain cs where
      cs: "all_some (map (toRawArticle J now sid) (filter ?has xs)) = Some cs"
        "filter ?keep cs = filter ?keep bs'"
      by blast
    show ?case
    proof (cases "?has x")
      case True
      with b cs bs show ?thesis by simp
    next
      case False
      with toRawArticle_lacking [OF b] have "\<not> ?keep b" by blast
      with False cs bs show ?thesis by auto
    qed
  qed
  have comm: "filter is_object (filter ?has items) = filter ?has (filter is_object items)"
    by (induction items) auto
  from assms obtain bs where
    bs: "all_some (map (toRawArticle J now sid) (filter is_object items)) = Some bs"
    and as: "as = filter ?keep bs"
    by (auto simp: normalizeArticles_def)
  from drop_step [OF bs] obtain cs where
    cs: "all_some (map (toRawArticle J now sid) (filter ?has (filter is_object items))) = Some cs"
    and eq: "filter ?keep cs = filter ?keep bs"
    by blast
  have "normalizeArticles J now (filter ?has items) sid = Some (filter ?keep cs)"
    unfolding normalizeArticles_def comm cs by simp
  with eq as show ?thesis by simp
qed

text \<open>
  C7: every article in the array \<open>parseCollectionResult\<close> returns has a title and a url
  that are not empty, the given source id as its source, and the time of the call as
  \<open>collectedAt\<close>; and the entries of a parsed array that lack a title or a url (the key
  is absent, or its value is \<open>null\<close> or the empty string) are dropped: the articles made
  of the array are the articles made of it without those entries.
\<close>

theorem parseCollectionResult_articles:
  "(\<forall>a \<in> set (articles (parseCollectionResult J now result sid)).
      title a \<noteq> [] \<and> url a \<noteq> [] \<and> source a = sid \<and> collectedAt a = Some now) \<and>
   (\<forall>items as. normalizeArticles J now items sid = Some as \<longrightarrow>
      normalizeArticles J now
        (filter (\<lambda>item. or_empty (get_prop item ''title'') \<noteq> JStr [] \<and>
                        or_empty (get_prop item ''url'') \<noteq> JStr []) items) sid = Some as)"
proof (rule conjI)
  show "\<forall>a \<in> set (articles (parseCollectionResult J now result sid)).
      title a \<noteq> [] \<and> url a \<noteq> [] \<and> source a = sid \<and> collectedAt a = Some now"
  proof (rule ballI)
    fix a
    assume "a \<in> set (articles (parseCollectionResult J now result sid))"
    then show "title a \<noteq> [] \<and> url a \<noteq> [] \<and> source a = sid \<and> collectedAt a = Some now"
      unfolding parseCollectionResult_def by (rule parseCandidates_article)
  qed
next
  show "\<forall>items as. normalizeArticles J now items sid = Some as \<longrightarrow>
      normalizeArticles J now
        (filter (\<lambda>item. or_empty (get_prop item ''title'') \<noteq> JStr [] \<and>
                        or_empty (get_prop item ''url'') \<noteq> JStr []) items) sid = Some as"
  proof (intro allI impI)
    fix items as
    assume "normalizeArticles J now items sid = Some as"
    then show "normalizeArticles J now
        (filter (\<lambda>item. or_empty (get_prop item ''title'') \<noteq> JStr [] \<and>
                        or_empty (get_prop item ''url'') \<noteq> JStr []) items) sid = Some as"
      by (rule normalizeArticles_drops)
  qed
qed

text \<open>The example: the fenced block is the one candidate, its first entry becomes the
  one article, and its second entry, which has no url, is dropped.\<close>

lemma example_candidates: "extractJsonCandidates example_answer = [example_block]"
  by (simp add: extractJsonCandidates_def example_answer_def example_block_def
      fenced_blocks.simps toLowerCase_def lower_char_def pushCandidate_def
      trim_str_def trimStart_def trimEnd_def skip_spaces.simps space_width_def white_space_def
      looks_like_json_def is_word_char_def Let_def)

lemma example_parse:
  "articles (parseCollectionResult example_json_runtime ''2024-01-15T10:00:00.000Z''
      example_answer ''claude_blog'')
   = [\<lparr> url = ''https://a.example/1'', title = ''A'', summary = None,
        source = ''claude_blog'', collectedAt = Some ''2024-01-15T10:00:00.000Z'',
        publishedAt = None, dateMetaContent = None \<rparr>]"
  by (simp add: parseCollectionResult_def example_candidates example_json_runtime_def
      normalizeArticles_def toRawArticle_def optional_field_def)

theorem parseCollectionResult_articles_witness:
  "(\<exists>a. a \<in> set (articles (parseCollectionResult example_json_runtime
            ''2024-01-15T10:00:00.000Z'' example_answer ''claude_blog'')) \<and>
        title a = ''A'' \<and> title a \<noteq> [] \<and> url a \<noteq> [] \<and> source a = ''claude_blog'' \<and>
        collectedAt a = Some ''2024-01-15T10:00:00.000Z'') \<and>
   normalizeArticles example_json_runtime ''2024-01-15T10:00:00.000Z''
     [JObj [(''title'', JStr ''A''), (''url'', JStr ''https://a.example/1'')],
      JObj [(''title'', JStr ''B'')]] ''claude_blog''
   = normalizeArticles example_json_runtime ''2024-01-15T10:00:00.000Z''
     [JObj [(''title'', JStr ''A''), (''url'', JStr ''https://a.example/1'')]] ''claude_blog''"
proof -
  let ?a = "\<lparr> url = ''https://a.example/1'', title = ''A'', summary = None,
        source = ''claude_blog'', collectedAt = Some ''2024-01-15T10:00:00.000Z'',
        publishedAt = None, dateMetaContent = None \<rparr>"
  let ?items = "[JObj [(''title'', JStr ''A''), (''url'', JStr ''https://a.example/1'')],
      JObj [(''title'', JStr ''B'')]] :: int json list"
  note inst = parseCollectionResult_articles [of example_json_runtime
      "''2024-01-15T10:00:00.000Z''" example_answer "''claude_blog''"]
  have m: "?a \<in> set (articles (parseCollectionResult example_json_runtime
            ''2024-01-15T10:00:00.000Z'' example_answer ''claude_blog''))"
    by (simp only: example_parse list.set insertI1)
  with inst have p: "title ?a \<noteq> [] \<and> url ?a \<noteq> [] \<and> source ?a = ''claude_blog'' \<and>
      collectedAt ?a = Some ''2024-01-15T10:00:00.000Z''"
    by blast
  have n: "normalizeArticles example_json_runtime ''2024-01-15T10:00:00.000Z'' ?items ''claude_blog''
      = Some [?a]"
    by (simp add: normalizeArticles_def toRawArticle_def optional_field_def example_json_runtime_def)
  from inst n have "normalizeArticles example_json_runtime ''2024-01-15T10:00:00.000Z''
      (filter (\<lambda>item. or_empty (get_prop item ''title'') \<noteq> JStr [] \<and>
                      or_empty (get_prop item ''url'') \<noteq> JStr []) ?items) ''claude_blog''
      = Some [?a]"
    by blast
  then have d: "normalizeArticles example_json_runtime ''2024-01-15T10:00:00.000Z''
      [JObj [(''title'', JStr ''A''), (''url'', JStr ''https://a.example/1'')]] ''claude_blog''
      = Some [?a]"
    by simp
  have t: "title ?a = ''A''" by simp
  from m p t n d show ?thesis by (intro conjI exI [of _ ?a]) simp_all
qed

end
